theory Spec2Isabelle
  imports Main
begin

section \<open>Values, responses, exceptions and the log\<close>

text \<open>
  A decoded JSON document, as Python holds it: \<open>None\<close>, \<open>bool\<close>, \<open>int\<close>,
  \<open>float\<close> (kept as its literal), \<open>str\<close>, \<open>list\<close> and \<open>dict\<close>. A dict is an
  association list in insertion order.
\<close>

datatype json =
    JNull
  | JBool bool
  | JInt int
  | JFloat string
  | JStr string
  | JList "json list"
  | JDict "(string \<times> json) list"

text \<open>
  \<open>requests.Response\<close>: the status code and the raw body. The decoded body
  (\<open>response.text\<close>) is identified with the raw one.
\<close>

record response =
  status_code :: int
  content :: string

definition response_text :: "response \<Rightarrow> string" where
  "response_text r = content r"

text \<open>
  The exceptions the code meets. \<open>HTTPError\<close>, \<open>JSONDecodeError\<close> and every other
  \<open>RequestException\<close> are classes of \<open>requests.exceptions\<close>;
  \<open>ClientAuthenticationError\<close> and its subclass \<open>CredentialUnavailableError\<close> are the
  ones of \<open>azure\<close>; \<open>RecursionError\<close> and \<open>ValueError\<close> are what the JSON decoder raises
  besides its decode error (on a document nested too deep, on an integer of too many
  digits); \<open>Exception\<close> stands for any other exception class. Where a class has the
  attribute \<open>response\<close>, or an instance may be given one, the exception holds it
  (\<open>None\<close> when it is absent or \<open>None\<close>).
\<close>

datatype error =
    HTTPError "response option"
  | RequestException string "response option"
  | JSONDecodeError string
  | ClientAuthenticationError string "response option"
  | CredentialUnavailableError string "response option"
  | UnboundLocalError string
  | AttributeError string
  | TypeError string
  | RecursionError string
  | ValueError string
  | Exception string "response option"

fun isinstance_HTTPError :: "error \<Rightarrow> bool" where
  "isinstance_HTTPError (HTTPError r) = True"
| "isinstance_HTTPError e = False"

fun isinstance_JSONDecodeError :: "error \<Rightarrow> bool" where
  "isinstance_JSONDecodeError (JSONDecodeError d) = True"
| "isinstance_JSONDecodeError e = False"

fun isinstance_RequestException :: "error \<Rightarrow> bool" where
  "isinstance_RequestException (HTTPError r) = True"
| "isinstance_RequestException (RequestException m r) = True"
| "isinstance_RequestException (JSONDecodeError d) = True"
| "isinstance_RequestException e = False"

fun isinstance_CredentialUnavailableError :: "error \<Rightarrow> bool" where
  "isinstance_CredentialUnavailableError (CredentialUnavailableError m r) = True"
| "isinstance_CredentialUnavailableError e = False"

text \<open>\<open>e.response\<close> where the exception has the attribute and it is not \<open>None\<close>.\<close>

fun error_response :: "error \<Rightarrow> response option" where
  "error_response (HTTPError r) = r"
| "error_response (RequestException m r) = r"
| "error_response (ClientAuthenticationError m r) = r"
| "error_response (CredentialUnavailableError m r) = r"
| "error_response (Exception m r) = r"
| "error_response e = None"

text \<open>
  A log record is the level and the message; the message of an f-string is kept as its
  parts, the literal text and the interpolated values, in order.
\<close>

datatype level = DEBUG | INFO | WARNING | ERROR

datatype frag = Lit string | Val string | Num int | Err error | Obj json

text \<open>
  What goes over the wire: the arguments of \<open>session.request\<close>. A keyword argument
  holds a JSON value or \<open>None\<close>.
\<close>

record request =
  http_method :: string
  url :: string
  headers :: "(string \<times> string) list"
  kwargs :: "(string \<times> json option) list"

text \<open>
  The effects of a call: the records handed to the loggers and the requests handed to
  the session, both in order.
\<close>

record world =
  logged :: "(level \<times> frag list) list"
  sent :: "request list"

definition logger :: "level \<Rightarrow> frag list \<Rightarrow> world \<Rightarrow> world" where
  "logger l m w = w\<lparr>logged := logged w @ [(l, m)]\<rparr>"

definition session_request :: "request \<Rightarrow> world \<Rightarrow> world" where
  "session_request q w = w\<lparr>sent := sent w @ [q]\<rparr>"

section \<open>auth.py\<close>

record AccessToken =
  token :: string
  expires_on :: int

text \<open>
  The credential of \<open>azure.identity\<close>. A strategy (environment secrets, managed identity,
  the CLI session, ...) maps the scopes to a token or raises. \<open>DefaultAzureCredential\<close>
  holds its strategies in order and, once one of them has produced a token, the strategy
  that did.
\<close>

type_synonym strategy = "string list \<Rightarrow> error + AccessToken"

record DefaultAzureCredential =
  credentials :: "strategy list"
  successful_credential :: "strategy option"

text \<open>
  The chain of \<open>ChainedTokenCredential.get_token\<close>: the first token wins; a strategy that
  raises \<open>CredentialUnavailableError\<close> is passed over, any other exception ends the loop;
  when the loop ends without a token the chain raises \<open>ClientAuthenticationError\<close> (its
  message, which goes on to list the attempts, is cut after the first sentence).
\<close>

definition chain_failed :: error where
  "chain_failed =
     ClientAuthenticationError
       ''DefaultAzureCredential failed to retrieve a token from the included credentials.'' None"

fun chained_get_token :: "strategy list \<Rightarrow> string list \<Rightarrow> error + AccessToken" where
  "chained_get_token [] scopes = Inl chain_failed"
| "chained_get_token (c # cs) scopes =
     (case c scopes of
        Inr access_token \<Rightarrow> Inr access_token
      | Inl ex \<Rightarrow>
          if isinstance_CredentialUnavailableError ex then chained_get_token cs scopes
          else chained_get_token [] scopes)"

text \<open>
  \<open>DefaultAzureCredential.get_token\<close>: the strategy that succeeded before is asked alone,
  otherwise the chain is. The credential is read as it is on entry: every operation of
  the client acquires one token.
\<close>

definition get_token :: "DefaultAzureCredential \<Rightarrow> string list \<Rightarrow> error + AccessToken" where
  "get_token self scopes =
     (case successful_credential self of
        Some c \<Rightarrow> c scopes
      | None \<Rightarrow> chained_get_token (credentials self) scopes)"

record PowerBIAuth =
  tenant_id :: "string option"
  scope :: "string list"
  credential :: DefaultAzureCredential

text \<open>
  \<open>PowerBIAuth.__init__\<close>: the scope is fixed, and the credential is a new
  \<open>DefaultAzureCredential\<close>, whose strategies the library takes from the environment.
\<close>

definition PowerBIAuth_init :: "string option \<Rightarrow> strategy list \<Rightarrow> PowerBIAuth" where
  "PowerBIAuth_init tenant strategies =
     \<lparr>tenant_id = tenant, scope = [''https://analysis.windows.net/powerbi/api/.default''],
      credential = \<lparr>credentials = strategies, successful_credential = None\<rparr>\<rparr>"

definition get_access_token :: "PowerBIAuth \<Rightarrow> world \<Rightarrow> (error + string) \<times> world" where
  "get_access_token self w0 =
     (let w1 = logger INFO [Lit ''Attempting to acquire token using DefaultAzureCredential...''] w0
      in case get_token (credential self) (scope self) of
           Inr access_token_info \<Rightarrow>
             (Inr (token access_token_info),
              logger INFO [Lit ''Successfully acquired access token.''] w1)
         | Inl e \<Rightarrow>
             if isinstance_CredentialUnavailableError e then
               (Inl e,
                logger ERROR [Lit (''Ensure you are logged in via Azure CLI ('' @ [CHR 0x27] @ ''az login'' @ [CHR 0x27] @ ''), ''
                                   @ ''or have environment variables (AZURE_CLIENT_ID, AZURE_CLIENT_SECRET, AZURE_TENANT_ID), ''
                                   @ ''or are running in an environment with Managed Identity.'')]
                  (logger ERROR [Lit ''DefaultAzureCredential failed: '', Err e] w1))
             else
               (Inl e,
                logger ERROR [Lit ''An unexpected error occurred during token acquisition: '', Err e] w1))"

section \<open>client.py\<close>

text \<open>
  \<open>PowerBIClient\<close>. The session is what the remote end does with a request: it answers
  with a response or the transport raises.
\<close>

record PowerBIClient =
  auth :: PowerBIAuth
  session :: "request \<Rightarrow> error + response"

definition BASE_URL :: string where
  "BASE_URL = ''https://api.powerbi.com/v1.0/myorg''"

definition lstrip :: "char \<Rightarrow> string \<Rightarrow> string" where
  "lstrip c s = dropWhile (\<lambda>x. x = c) s"

text \<open>The absolute URL of an endpoint: the first line of \<open>PowerBIClient._request\<close>.\<close>

definition request_url :: "string \<Rightarrow> string" where
  "request_url endpoint = BASE_URL @ ''/'' @ lstrip (CHR ''/'') endpoint"

definition get_headers :: "PowerBIClient \<Rightarrow> world \<Rightarrow> (error + (string \<times> string) list) \<times> world" where
  "get_headers self w0 =
     (case get_access_token (auth self) w0 of
        (Inl e, w1) \<Rightarrow> (Inl e, w1)
      | (Inr access_token, w1) \<Rightarrow>
          (Inr [(''Authorization'', ''Bearer '' @ access_token),
                (''Content-Type'', ''application/json'')], w1))"

text \<open>\<open>Response.raise_for_status\<close>: \<open>HTTPError\<close>, holding the response, on 4xx and 5xx.\<close>

definition raise_for_status :: "response \<Rightarrow> error + unit" where
  "raise_for_status r =
     (if 400 \<le> status_code r \<and> status_code r < 600 then Inl (HTTPError (Some r)) else Inr ())"

text \<open>
  \<open>PowerBIClient._request\<close>. When the session itself raises an \<open>HTTPError\<close>, the handler
  reads the local \<open>response\<close> before it was ever bound.
\<close>

definition request :: "PowerBIClient \<Rightarrow> string \<Rightarrow> string \<Rightarrow> (string \<times> json option) list \<Rightarrow> world
    \<Rightarrow> (error + response) \<times> world" where
  "request self meth endpoint kw w0 =
     (let url = request_url endpoint
      in case get_headers self w0 of
           (Inl e, w1) \<Rightarrow> (Inl e, w1)
         | (Inr hdrs, w1) \<Rightarrow>
             (let w2 = logger DEBUG [Lit ''Making '', Val meth, Lit '' request to '', Val url] w1;
                  q = \<lparr>http_method = meth, url = url, headers = hdrs, kwargs = kw\<rparr>;
                  w3 = session_request q w2
              in case session self q of
                   Inr response \<Rightarrow>
                     (case raise_for_status response of
                        Inr u \<Rightarrow>
                          (Inr response,
                           logger DEBUG [Lit ''Request successful: '', Num (status_code response)] w3)
                      | Inl http_err \<Rightarrow>
                          (Inl http_err,
                           logger ERROR [Lit ''HTTP error occurred: '', Err http_err, Lit '' - '',
                                         Val (response_text response)] w3))
                 | Inl e \<Rightarrow>
                     if isinstance_HTTPError e then
                       (Inl (UnboundLocalError ''response''), w3)
                     else if isinstance_RequestException e then
                       (Inl e, logger ERROR [Lit ''Request exception occurred: '', Err e] w3)
                     else (Inl e, w3)))"

text \<open>
  The JSON decoder (\<open>json.loads\<close>), a parameter: it maps a text to the decoded document
  or raises, \<open>JSONDecodeError\<close> with its message on a text that is not JSON, and other
  exceptions on texts it cannot work through.
\<close>

type_synonym decoder = "string \<Rightarrow> error + json"

text \<open>
  \<open>Response.json\<close>: the body handed to the decoder. A decode error is raised again as
  the \<open>JSONDecodeError\<close> of \<open>requests\<close>, with the same message; any other exception of
  the decoder passes through.
\<close>

definition response_json :: "decoder \<Rightarrow> response \<Rightarrow> error + json" where
  "response_json loads r =
     (case loads (response_text r) of
        Inr j \<Rightarrow> Inr j
      | Inl e \<Rightarrow>
          (case e of
             JSONDecodeError msg \<Rightarrow> Inl (JSONDecodeError msg)
           | _ \<Rightarrow> Inl e))"

definition get :: "decoder \<Rightarrow> PowerBIClient \<Rightarrow> string \<Rightarrow> json option \<Rightarrow> world
    \<Rightarrow> (error + json) \<times> world" where
  "get loads self endpoint params w0 =
     (case request self ''GET'' endpoint [(''params'', params)] w0 of
        (Inl e, w1) \<Rightarrow> (Inl e, w1)
      | (Inr response, w1) \<Rightarrow> (response_json loads response, w1))"

definition post :: "decoder \<Rightarrow> PowerBIClient \<Rightarrow> string \<Rightarrow> json option \<Rightarrow> world
    \<Rightarrow> (error + json) \<times> world" where
  "post loads self endpoint body w0 =
     (case request self ''POST'' endpoint [(''json'', body)] w0 of
        (Inl e, w1) \<Rightarrow> (Inl e, w1)
      | (Inr response, w1) \<Rightarrow>
          if status_code response = 204 then (Inr (JDict []), w1)
          else (case response_json loads response of
                  Inr j \<Rightarrow> (Inr j, w1)
                | Inl e \<Rightarrow>
                    if isinstance_JSONDecodeError e then
                      (Inr (JDict []),
                       logger WARNING [Lit ''POST request to '', Val endpoint,
                                       Lit '' did not return JSON. Status: '',
                                       Num (status_code response)] w1)
                    else (Inl e, w1)))"

definition delete :: "decoder \<Rightarrow> PowerBIClient \<Rightarrow> string \<Rightarrow> json option \<Rightarrow> world
    \<Rightarrow> (error + json) \<times> world" where
  "delete loads self endpoint params w0 =
     (case request self ''DELETE'' endpoint [(''params'', params)] w0 of
        (Inl e, w1) \<Rightarrow> (Inl e, w1)
      | (Inr response, w1) \<Rightarrow>
          if (status_code response = 200 \<or> status_code response = 204) \<and> content response = [] then
            (Inr (JDict []),
             logger DEBUG [Lit ''DELETE request to '', Val endpoint, Lit '' successful with status '',
                           Num (status_code response), Lit '' and no content.''] w1)
          else (case response_json loads response of
                  Inr j \<Rightarrow> (Inr j, w1)
                | Inl e \<Rightarrow>
                    if isinstance_JSONDecodeError e then
                      (Inr (JDict []),
                       logger WARNING [Lit ''DELETE request to '', Val endpoint,
                                       Lit '' did not return JSON. Status: '',
                                       Num (status_code response)] w1)
                    else (Inl e, w1)))"

section \<open>Python values in the domain modules\<close>

text \<open>
  Truthiness of an optional string or dict: \<open>None\<close> and the empty one are false. Where a
  branch also reads the value, the test is written as a case on the option (an optional
  integer is true when it is present and not zero).
\<close>

definition truthy_str :: "string option \<Rightarrow> bool" where
  "truthy_str s = (case s of None \<Rightarrow> False | Some t \<Rightarrow> t \<noteq> [])"

definition truthy_dict :: "(string \<times> json) list option \<Rightarrow> bool" where
  "truthy_dict d = (case d of None \<Rightarrow> False | Some kvs \<Rightarrow> kvs \<noteq> [])"

text \<open>\<open>d[k] = v\<close>: the value of an existing key is replaced, a new key goes last.\<close>

fun dict_set :: "string \<Rightarrow> json \<Rightarrow> (string \<times> json) list \<Rightarrow> (string \<times> json) list" where
  "dict_set k v [] = [(k, v)]"
| "dict_set k v ((k', v') # d) = (if k = k' then (k, v) # d else (k', v') # dict_set k v d)"

text \<open>\<open>x.get(k, default)\<close>: only a dict has the method.\<close>

definition py_get :: "json \<Rightarrow> string \<Rightarrow> json \<Rightarrow> error + json" where
  "py_get x k dflt =
     (case x of
        JDict kvs \<Rightarrow> Inr (case map_of kvs k of Some v \<Rightarrow> v | None \<Rightarrow> dflt)
      | _ \<Rightarrow> Inl (AttributeError ''get''))"

text \<open>\<open>len(x)\<close>: defined on lists, dicts and strings, a \<open>TypeError\<close> elsewhere.\<close>

definition py_len :: "json \<Rightarrow> error + int" where
  "py_len x =
     (case x of
        JList xs \<Rightarrow> Inr (int (length xs))
      | JDict kvs \<Rightarrow> Inr (int (length kvs))
      | JStr s \<Rightarrow> Inr (int (length s))
      | _ \<Rightarrow> Inl (TypeError ''len''))"

text \<open>
  The diagnostics both domain modules log for a caught exception
  (\<open>WorkspaceAdmin._log_api_error\<close>, and the same lines written out in the two
  handlers of \<open>GatewayAdmin\<close>): status and body of the response the exception holds.
\<close>

definition log_api_error :: "decoder \<Rightarrow> error \<Rightarrow> world \<Rightarrow> world" where
  "log_api_error loads e w0 =
     (case error_response e of
        None \<Rightarrow> w0
      | Some r \<Rightarrow>
          (let w1 = logger ERROR [Lit ''API Response Status: '', Num (status_code r)] w0
           in case response_json loads r of
                Inr j \<Rightarrow> logger ERROR [Lit ''API Response Body: '', Obj j] w1
              | Inl x \<Rightarrow> logger ERROR [Lit ''API Response Body: '', Val (response_text r)] w1))"

section \<open>powerbi\_admin/gateway.py\<close>

definition get_gateways :: "decoder \<Rightarrow> PowerBIClient \<Rightarrow> world \<Rightarrow> (error + json) \<times> world" where
  "get_gateways loads client w0 =
     (let w1 = logger INFO [Lit ''Fetching gateways...''] w0
      in case get loads client ''gateways'' None w1 of
           (Inl e, w2) \<Rightarrow> (Inl e, w2)
         | (Inr response, w2) \<Rightarrow>
             (case py_get response ''value'' (JList []) of
                Inl e \<Rightarrow> (Inl e, w2)
              | Inr gateways \<Rightarrow>
                  (case py_len gateways of
                     Inl e \<Rightarrow> (Inl e, w2)
                   | Inr n \<Rightarrow>
                       (Inr gateways, logger INFO [Lit ''Found '', Num n, Lit '' gateways.''] w2))))"

definition get_gateway_datasources :: "decoder \<Rightarrow> PowerBIClient \<Rightarrow> string \<Rightarrow> world
    \<Rightarrow> (error + json) \<times> world" where
  "get_gateway_datasources loads client gateway_id w0 =
     (let w1 = logger INFO [Lit ''Fetching datasources for gateway ID: '', Val gateway_id] w0;
          endpoint = ''gateways/'' @ gateway_id @ ''/datasources''
      in case get loads client endpoint None w1 of
           (Inl e, w2) \<Rightarrow> (Inl e, w2)
         | (Inr response, w2) \<Rightarrow>
             (case py_get response ''value'' (JList []) of
                Inl e \<Rightarrow> (Inl e, w2)
              | Inr datasources \<Rightarrow>
                  (case py_len datasources of
                     Inl e \<Rightarrow> (Inl e, w2)
                   | Inr n \<Rightarrow>
                       (Inr datasources,
                        logger INFO [Lit ''Found '', Num n, Lit '' datasources for gateway '',
                                     Val gateway_id, Lit ''.''] w2))))"

text \<open>The \<open>try\<close> block of \<open>get_gateway_datasource_users\<close>.\<close>

definition get_gateway_datasource_users_try :: "decoder \<Rightarrow> PowerBIClient \<Rightarrow> string
    \<Rightarrow> string \<Rightarrow> world \<Rightarrow> (error + json) \<times> world" where
  "get_gateway_datasource_users_try loads client endpoint datasource_id w1 =
     (case get loads client endpoint None w1 of
        (Inl e, w2) \<Rightarrow> (Inl e, w2)
      | (Inr response, w2) \<Rightarrow>
          (case py_get response ''value'' (JList []) of
             Inl e \<Rightarrow> (Inl e, w2)
           | Inr users \<Rightarrow>
               (case py_len users of
                  Inl e \<Rightarrow> (Inl e, w2)
                | Inr n \<Rightarrow>
                    (Inr users,
                     logger INFO [Lit ''Found '', Num n, Lit '' users for datasource '',
                                  Val datasource_id, Lit ''.''] w2))))"

definition get_gateway_datasource_users :: "decoder \<Rightarrow> PowerBIClient \<Rightarrow> string
    \<Rightarrow> string \<Rightarrow> world \<Rightarrow> (error + json) \<times> world" where
  "get_gateway_datasource_users loads client gateway_id datasource_id w0 =
     (let w1 = logger INFO [Lit ''Fetching users for datasource ID: '', Val datasource_id,
                            Lit '' on gateway ID: '', Val gateway_id] w0;
          endpoint = ''gateways/'' @ gateway_id @ ''/datasources/'' @ datasource_id @ ''/users''
      in case get_gateway_datasource_users_try loads client endpoint datasource_id w1 of
           (Inr users, w2) \<Rightarrow> (Inr users, w2)
         | (Inl e, w2) \<Rightarrow>
             (Inr (JList []),
              log_api_error loads e
                (logger ERROR [Lit ''Could not get users for datasource '', Val datasource_id,
                               Lit '' on gateway '', Val gateway_id, Lit '': '', Err e] w2)))"

text \<open>The payload of \<open>add_datasource_user\<close> and the warning its construction may log.\<close>

definition add_datasource_user_payload :: "string \<Rightarrow> string \<Rightarrow> string \<Rightarrow> string option
    \<Rightarrow> string option \<Rightarrow> (string \<times> json) list option \<Rightarrow> world \<Rightarrow> (string \<times> json) list \<times> world" where
  "add_datasource_user_payload principal_id principal_type access_right display_name
       email_address profile w1 =
     (let p0 = [(''identifier'', JStr principal_id),
                (''principalType'', JStr principal_type),
                (''datasourceUserAccessRight'', JStr access_right)];
          p1 = (case display_name of
                  Some d \<Rightarrow> if d \<noteq> [] then dict_set ''displayName'' (JStr d) p0 else p0
                | None \<Rightarrow> p0);
          p2 = (case email_address of
                  Some m \<Rightarrow> if m \<noteq> [] then dict_set ''emailAddress'' (JStr m) p1 else p1
                | None \<Rightarrow> p1)
      in if principal_type = ''ServicePrincipal'' \<and> truthy_dict profile then
           (case profile of
              Some kvs \<Rightarrow> (dict_set ''profile'' (JDict kvs) p2, w1)
            | None \<Rightarrow> (p2, w1))
         else if principal_type = ''User'' \<and> \<not> truthy_str email_address then
           (p2, logger WARNING [Lit ''Adding a user principal ('', Val principal_id,
                                Lit '') without an emailAddress is often problematic.''] w1)
         else (p2, w1))"

definition add_datasource_user :: "decoder \<Rightarrow> PowerBIClient \<Rightarrow> string \<Rightarrow> string
    \<Rightarrow> string \<Rightarrow> string \<Rightarrow> string \<Rightarrow> string option \<Rightarrow> string option
    \<Rightarrow> (string \<times> json) list option \<Rightarrow> world \<Rightarrow> (error + bool) \<times> world" where
  "add_datasource_user loads client gateway_id datasource_id principal_id principal_type
       access_right display_name email_address profile w0 =
     (let w1 = logger INFO [Lit ''Adding '', Val principal_type, Lit '' (ID: '', Val principal_id,
                            Lit '') to datasource '', Val datasource_id, Lit '' on gateway '',
                            Val gateway_id, Lit '' with rights: '', Val access_right] w0;
          endpoint = ''gateways/'' @ gateway_id @ ''/datasources/'' @ datasource_id @ ''/users''
      in case add_datasource_user_payload principal_id principal_type access_right display_name
                email_address profile w1 of
           (payload, w2) \<Rightarrow>
             (case post loads client endpoint (Some (JDict payload)) w2 of
                (Inr j, w3) \<Rightarrow>
                  (Inr True,
                   logger INFO [Lit ''Successfully added '', Val principal_type, Lit '' '',
                                Val principal_id, Lit '' to datasource '', Val datasource_id,
                                Lit ''.''] w3)
              | (Inl e, w3) \<Rightarrow>
                  (Inr False,
                   log_api_error loads e
                     (logger ERROR [Lit ''Failed to add user '', Val principal_id,
                                    Lit '' to datasource '', Val datasource_id, Lit '' on gateway '',
                                    Val gateway_id, Lit '': '', Err e] w3))))"

section \<open>powerbi\_admin/workspace.py\<close>

definition get_workspaces_params :: "string option \<Rightarrow> int option \<Rightarrow> int option \<Rightarrow> (string \<times> json) list" where
  "get_workspaces_params filter_str top_n skip_n =
     (let p0 = [];
          p1 = (case filter_str of
                  Some f \<Rightarrow> if f \<noteq> [] then dict_set ''$filter'' (JStr f) p0 else p0
                | None \<Rightarrow> p0);
          p2 = (case top_n of
                  Some n \<Rightarrow> if n \<noteq> 0 then dict_set ''$top'' (JInt n) p1 else p1
                | None \<Rightarrow> p1);
          p3 = (case skip_n of
                  Some n \<Rightarrow> if n \<noteq> 0 then dict_set ''$skip'' (JInt n) p2 else p2
                | None \<Rightarrow> p2)
      in p3)"

definition get_workspaces :: "decoder \<Rightarrow> PowerBIClient \<Rightarrow> string option \<Rightarrow> int option
    \<Rightarrow> int option \<Rightarrow> world \<Rightarrow> (error + json) \<times> world" where
  "get_workspaces loads client filter_str top_n skip_n w0 =
     (let w1 = logger INFO [Lit ''Fetching workspaces...''] w0;
          params = get_workspaces_params filter_str top_n skip_n
      in case get loads client ''groups'' (Some (JDict params)) w1 of
           (Inl e, w2) \<Rightarrow> (Inl e, w2)
         | (Inr response, w2) \<Rightarrow>
             (case py_get response ''value'' (JList []) of
                Inl e \<Rightarrow> (Inl e, w2)
              | Inr workspaces \<Rightarrow>
                  (case py_len workspaces of
                     Inl e \<Rightarrow> (Inl e, w2)
                   | Inr n \<Rightarrow>
                       (Inr workspaces,
                        logger INFO [Lit ''Found '', Num n, Lit '' workspaces matching criteria.''] w2))))"

text \<open>The payload of \<open>add_workspace_user\<close> and the warning its construction may log.\<close>

definition add_workspace_user_payload :: "string \<Rightarrow> string \<Rightarrow> string \<Rightarrow> string option \<Rightarrow> world
    \<Rightarrow> (string \<times> json) list \<times> world" where
  "add_workspace_user_payload identifier principal_type access_right email_address w1 =
     (let p0 = [(''identifier'', JStr identifier),
                (''principalType'', JStr principal_type),
                (''groupUserAccessRight'', JStr access_right)]
      in if principal_type = ''User'' then
           (if truthy_str email_address then
              (case email_address of
                 Some m \<Rightarrow> (dict_set ''emailAddress'' (JStr m) p0, w1)
               | None \<Rightarrow> (p0, w1))
            else
              (dict_set ''emailAddress'' (JStr identifier) p0,
               logger WARNING [Lit ''Adding User principal ('', Val identifier,
                               Lit '') without explicit emailAddress. Assuming identifier is email/UPN.''] w1))
         else (p0, w1))"

definition add_workspace_user :: "decoder \<Rightarrow> PowerBIClient \<Rightarrow> string \<Rightarrow> string \<Rightarrow> string
    \<Rightarrow> string \<Rightarrow> string option \<Rightarrow> world \<Rightarrow> (error + bool) \<times> world" where
  "add_workspace_user loads client workspace_id identifier principal_type access_right
       email_address w0 =
     (let w1 = logger INFO [Lit ''Adding '', Val principal_type, Lit '' ('', Val identifier,
                            Lit '') to workspace '', Val workspace_id, Lit '' with rights: '',
                            Val access_right] w0;
          endpoint = ''groups/'' @ workspace_id @ ''/users''
      in case add_workspace_user_payload identifier principal_type access_right email_address w1 of
           (payload, w2) \<Rightarrow>
             (case post loads client endpoint (Some (JDict payload)) w2 of
                (Inr j, w3) \<Rightarrow>
                  (Inr True,
                   logger INFO [Lit ''Successfully added '', Val principal_type, Lit '' '',
                                Val identifier, Lit '' to workspace '', Val workspace_id,
                                Lit ''.''] w3)
              | (Inl e, w3) \<Rightarrow>
                  (Inr False,
                   log_api_error loads e
                     (logger ERROR [Lit ''Failed to add '', Val principal_type, Lit '' '',
                                    Val identifier, Lit '' to workspace '', Val workspace_id,
                                    Lit '': '', Err e] w3))))"

definition delete_workspace_user :: "decoder \<Rightarrow> PowerBIClient \<Rightarrow> string \<Rightarrow> string
    \<Rightarrow> string option \<Rightarrow> world \<Rightarrow> (error + bool) \<times> world" where
  "delete_workspace_user loads client workspace_id identifier principal_type w0 =
     (let principal_info =
            (case principal_type of
               Some t \<Rightarrow> if t \<noteq> [] then [Val t, Lit '' ('', Val identifier, Lit '')'']
                         else [Val identifier]
             | None \<Rightarrow> [Val identifier]);
          w1 = logger INFO ([Lit ''Deleting ''] @ principal_info @
                            [Lit '' from workspace '', Val workspace_id]) w0;
          endpoint = ''groups/'' @ workspace_id @ ''/users/'' @ identifier
      in case request client ''DELETE'' endpoint [] w1 of
           (Inr response, w2) \<Rightarrow>
             (Inr True,
              logger INFO ([Lit ''Successfully deleted ''] @ principal_info @
                           [Lit '' from workspace '', Val workspace_id, Lit ''.'']) w2)
         | (Inl e, w2) \<Rightarrow>
             (Inr False,
              log_api_error loads e
                (logger ERROR ([Lit ''Failed to delete ''] @ principal_info @
                               [Lit '' from workspace '', Val workspace_id, Lit '': '', Err e]) w2)))"

section \<open>Observing a call\<close>

text \<open>
  Between the worlds before and after a call: the call handed exactly one request to the
  session, and the session answered it with the response \<open>r\<close>.
\<close>

definition answered :: "PowerBIClient \<Rightarrow> world \<Rightarrow> world \<Rightarrow> response \<Rightarrow> bool" where
  "answered client w w' r \<longleftrightarrow>
     sent w' = sent w @ [last (sent w')] \<and> session client (last (sent w')) = Inr r"

text \<open>The status is one \<open>raise_for_status\<close> raises on.\<close>

definition error_status :: "response \<Rightarrow> bool" where
  "error_status r \<longleftrightarrow> 400 \<le> status_code r \<and> status_code r < 600"

text \<open>
  The call handed exactly one request to the session and the session answered it with
  a response whose status is no error status.
\<close>

definition succeeded :: "PowerBIClient \<Rightarrow> world \<Rightarrow> world \<Rightarrow> bool" where
  "succeeded client w w' \<longleftrightarrow>
     sent w' = sent w @ [last (sent w')] \<and>
     (case session client (last (sent w')) of
        Inr r \<Rightarrow> \<not> error_status r
      | Inl e \<Rightarrow> False)"

text \<open>
  Decoding the body of \<open>r\<close> gives a document or a JSON decode error, the one exception
  the handlers of \<open>post\<close> and \<open>delete\<close> catch.
\<close>

definition json_tolerated :: "decoder \<Rightarrow> response \<Rightarrow> bool" where
  "json_tolerated loads r \<longleftrightarrow>
     (case loads (content r) of
        Inr j \<Rightarrow> True
      | Inl e \<Rightarrow> isinstance_JSONDecodeError e)"

text \<open>
  The call handed exactly one request to the session, and \<open>post\<close> returns on the answer:
  the status is no error status, and it is 204 or the body is tolerated.
\<close>

definition post_returned :: "decoder \<Rightarrow> PowerBIClient \<Rightarrow> world \<Rightarrow> world \<Rightarrow> bool" where
  "post_returned loads client w w' \<longleftrightarrow>
     sent w' = sent w @ [last (sent w')] \<and>
     (case session client (last (sent w')) of
        Inr r \<Rightarrow> \<not> error_status r \<and> (status_code r = 204 \<or> json_tolerated loads r)
      | Inl e \<Rightarrow> False)"

section \<open>Sample values\<close>

text \<open>
  A decoder that knows three documents, takes a thousand or more opening brackets for a
  document nested beyond its recursion limit, and rejects every other text.
\<close>

definition loads_demo :: decoder where
  "loads_demo s =
     (if 1000 \<le> length s \<and> filter (\<lambda>c. c \<noteq> CHR ''['') s = [] then
        Inl (RecursionError ''maximum recursion depth exceeded while decoding a JSON array from a unicode string'')
      else if s = ''{}'' then Inr (JDict [])
      else if s = ''[]'' then Inr (JList [])
      else if s = ''null'' then Inr JNull
      else Inl (JSONDecodeError ''Expecting value''))"

text \<open>Strategies, a client on a fixed answer, the empty world and some responses.\<close>

definition strategy_demo :: strategy where
  "strategy_demo scopes = Inr \<lparr>token = ''tok'', expires_on = 0\<rparr>"

definition strategy_unavailable :: strategy where
  "strategy_unavailable scopes = Inl (CredentialUnavailableError ''no credential'' None)"

definition client_demo :: "response \<Rightarrow> PowerBIClient" where
  "client_demo r = \<lparr>auth = PowerBIAuth_init None [strategy_demo], session = (\<lambda>q. Inr r)\<rparr>"

definition world0 :: world where
  "world0 = \<lparr>logged = [], sent = []\<rparr>"

definition r403 :: response where
  "r403 = \<lparr>status_code = 403, content = ''Forbidden''\<rparr>"

definition r200_html :: response where
  "r200_html = \<lparr>status_code = 200, content = ''<html>''\<rparr>"

definition r200_empty :: response where
  "r200_empty = \<lparr>status_code = 200, content = []\<rparr>"

definition r200_dict :: response where
  "r200_dict = \<lparr>status_code = 200, content = ''{}''\<rparr>"

definition r200_deep :: response where
  "r200_deep = \<lparr>status_code = 200, content = replicate 1000 (CHR ''['')\<rparr>"

section \<open>Effects of the building blocks\<close>

lemmas demo_defs = PowerBIAuth_init_def loads_demo_def strategy_demo_def client_demo_def
  world0_def strategy_unavailable_def

lemmas client_defs = get_def post_def delete_def request_def request_url_def get_headers_def
  get_access_token_def get_token_def raise_for_status_def response_json_def response_text_def
  logger_def
  session_request_def lstrip_def BASE_URL_def Let_def

lemma sent_logger [simp]: "sent (logger l m w) = sent w"
  by (simp add: logger_def)

lemma logged_logger [simp]: "logged (logger l m w) = logged w @ [(l, m)]"
  by (simp add: logger_def)

lemma sent_session_request [simp]: "sent (session_request q w) = sent w @ [q]"
  by (simp add: session_request_def)

lemma logged_session_request [simp]: "logged (session_request q w) = logged w"
  by (simp add: session_request_def)

lemma sent_get_access_token [simp]: "sent (snd (get_access_token a w)) = sent w"
  by (simp add: get_access_token_def Let_def split: sum.splits)

lemma sent_get_headers [simp]: "sent (snd (get_headers c w)) = sent w"
proof (cases "get_access_token (auth c) w")
  case (Pair res w1)
  then have "sent w1 = sent w" using sent_get_access_token [of "auth c" w] by simp
  with Pair show ?thesis
    by (simp add: get_headers_def split: sum.splits)
qed

text \<open>What \<open>_request\<close> returns once the session has answered.\<close>

lemma request_answered:
  assumes "answered c w (snd (request c m ep kw w)) r"
  shows "fst (request c m ep kw w) = (if error_status r then Inl (HTTPError (Some r)) else Inr r)"
proof (cases "get_headers c w")
  case (Pair res w1)
  have s1: "sent w1 = sent w" using sent_get_headers [of c w] Pair by simp
  show ?thesis
  proof (cases res)
    case (Inl e)
    with Pair s1 assms show ?thesis by (simp add: request_def answered_def)
  next
    case (Inr hdrs)
    with Pair s1 assms show ?thesis
      by (auto simp: request_def answered_def error_status_def Let_def raise_for_status_def
               split: sum.splits if_splits)
  qed
qed

text \<open>\<open>_request\<close> returns a response exactly when the request succeeded.\<close>

lemma request_succeeded:
  "isl (fst (request c m ep kw w)) \<longleftrightarrow> \<not> succeeded c w (snd (request c m ep kw w))"
proof (cases "get_headers c w")
  case (Pair res w1)
  have s1: "sent w1 = sent w" using sent_get_headers [of c w] Pair by simp
  show ?thesis
  proof (cases res)
    case (Inl e)
    with Pair s1 show ?thesis by (simp add: request_def succeeded_def)
  next
    case (Inr hdrs)
    with Pair s1 show ?thesis
      by (auto simp: request_def succeeded_def error_status_def Let_def raise_for_status_def
               split: sum.splits if_splits)
  qed
qed

lemma sent_get [simp]:
  "sent (snd (get loads c ep ps w)) = sent (snd (request c ''GET'' ep [(''params'', ps)] w))"
  by (auto simp: get_def split: prod.splits sum.splits)

lemma sent_post [simp]:
  "sent (snd (post loads c ep b w)) = sent (snd (request c ''POST'' ep [(''json'', b)] w))"
  by (auto simp: post_def split: prod.splits sum.splits)

lemma sent_delete [simp]:
  "sent (snd (delete loads c ep ps w)) = sent (snd (request c ''DELETE'' ep [(''params'', ps)] w))"
  by (auto simp: delete_def split: prod.splits sum.splits)

lemma answered_sent: "sent w1 = sent w2 \<Longrightarrow> answered c w w1 r = answered c w w2 r"
  by (simp add: answered_def)

lemma succeeded_sent: "sent w1 = sent w2 \<Longrightarrow> succeeded c w w1 = succeeded c w w2"
  by (simp add: succeeded_def)

lemma get_raises:
  "fst (request c ''GET'' ep [(''params'', ps)] w) = Inl e \<Longrightarrow> fst (get loads c ep ps w) = Inl e"
  by (cases "request c ''GET'' ep [(''params'', ps)] w") (simp add: get_def)

lemma post_raises:
  "fst (request c ''POST'' ep [(''json'', b)] w) = Inl e \<Longrightarrow> fst (post loads c ep b w) = Inl e"
  by (cases "request c ''POST'' ep [(''json'', b)] w") (simp add: post_def)

lemma delete_raises:
  "fst (request c ''DELETE'' ep [(''params'', ps)] w) = Inl e \<Longrightarrow> fst (delete loads c ep ps w) = Inl e"
  by (cases "request c ''DELETE'' ep [(''params'', ps)] w") (simp add: delete_def)

text \<open>The three verbs on a response that \<open>_request\<close> let through.\<close>

lemma get_returns:
  "fst (request c ''GET'' ep [(''params'', ps)] w) = Inr r \<Longrightarrow>
   get loads c ep ps w =
     (response_json loads r, snd (request c ''GET'' ep [(''params'', ps)] w))"
  by (cases "request c ''GET'' ep [(''params'', ps)] w") (simp add: get_def)

lemma response_json_loads: "response_json loads r = loads (content r)"
  by (simp add: response_json_def response_text_def split: sum.splits error.splits)

lemma post_returns:
  "fst (request c ''POST'' ep [(''json'', b)] w) = Inr r \<Longrightarrow>
   post loads c ep b w =
     (let w1 = snd (request c ''POST'' ep [(''json'', b)] w)
      in if status_code r = 204 then (Inr (JDict []), w1)
         else case loads (content r) of
                Inr j \<Rightarrow> (Inr j, w1)
              | Inl e \<Rightarrow>
                  if isinstance_JSONDecodeError e then
                    (Inr (JDict []),
                     logger WARNING [Lit ''POST request to '', Val ep,
                                     Lit '' did not return JSON. Status: '', Num (status_code r)] w1)
                  else (Inl e, w1))"
  by (cases "request c ''POST'' ep [(''json'', b)] w")
     (simp add: post_def response_json_loads split: sum.splits)

lemma delete_returns:
  "fst (request c ''DELETE'' ep [(''params'', ps)] w) = Inr r \<Longrightarrow>
   delete loads c ep ps w =
     (let w1 = snd (request c ''DELETE'' ep [(''params'', ps)] w)
      in if (status_code r = 200 \<or> status_code r = 204) \<and> content r = [] then
           (Inr (JDict []),
            logger DEBUG [Lit ''DELETE request to '', Val ep, Lit '' successful with status '',
                          Num (status_code r), Lit '' and no content.''] w1)
         else case loads (content r) of
                Inr j \<Rightarrow> (Inr j, w1)
              | Inl e \<Rightarrow>
                  if isinstance_JSONDecodeError e then
                    (Inr (JDict []),
                     logger WARNING [Lit ''DELETE request to '', Val ep,
                                     Lit '' did not return JSON. Status: '', Num (status_code r)] w1)
                  else (Inl e, w1))"
  by (cases "request c ''DELETE'' ep [(''params'', ps)] w")
     (simp add: delete_def response_json_loads split: sum.splits)

lemma get_answered:
  assumes "answered c w (snd (get loads c ep ps w)) r"
  shows "fst (request c ''GET'' ep [(''params'', ps)] w) =
           (if error_status r then Inl (HTTPError (Some r)) else Inr r)"
proof -
  from assms have "answered c w (snd (request c ''GET'' ep [(''params'', ps)] w)) r"
    by (simp add: answered_def)
  then show ?thesis by (rule request_answered)
qed

lemma post_answered:
  assumes "answered c w (snd (post loads c ep b w)) r"
  shows "fst (request c ''POST'' ep [(''json'', b)] w) =
           (if error_status r then Inl (HTTPError (Some r)) else Inr r)"
proof -
  from assms have "answered c w (snd (request c ''POST'' ep [(''json'', b)] w)) r"
    by (simp add: answered_def)
  then show ?thesis by (rule request_answered)
qed

lemma delete_answered:
  assumes "answered c w (snd (delete loads c ep ps w)) r"
  shows "fst (request c ''DELETE'' ep [(''params'', ps)] w) =
           (if error_status r then Inl (HTTPError (Some r)) else Inr r)"
proof -
  from assms have "answered c w (snd (request c ''DELETE'' ep [(''params'', ps)] w)) r"
    by (simp add: answered_def)
  then show ?thesis by (rule request_answered)
qed

section \<open>The request pipeline\<close>

text \<open>
  C1. When the session answers a \<open>get\<close>, \<open>post\<close> or \<open>delete\<close> with a response whose status
  is a client or server error (4xx or 5xx, the statuses \<open>raise_for_status\<close> raises on), the
  operation raises \<open>HTTPError\<close> holding that very response, hence its status; the result
  is the exception, never a mapping.
\<close>

theorem api_error_raised:
  assumes "400 \<le> status_code r" and "status_code r < 600"
  shows "(answered c w (snd (get loads c ep ps w)) r \<longrightarrow>
            fst (get loads c ep ps w) = Inl (HTTPError (Some r)))
       \<and> (answered c w (snd (post loads c ep b w)) r \<longrightarrow>
            fst (post loads c ep b w) = Inl (HTTPError (Some r)))
       \<and> (answered c w (snd (delete loads c ep ps w)) r \<longrightarrow>
            fst (delete loads c ep ps w) = Inl (HTTPError (Some r)))"
proof -
  from assms have es: "error_status r" by (simp add: error_status_def)
  show ?thesis
  proof (intro conjI impI)
    assume "answered c w (snd (get loads c ep ps w)) r"
    from get_answered [OF this] es show "fst (get loads c ep ps w) = Inl (HTTPError (Some r))"
      by (simp add: get_raises)
  next
    assume "answered c w (snd (post loads c ep b w)) r"
    from post_answered [OF this] es show "fst (post loads c ep b w) = Inl (HTTPError (Some r))"
      by (simp add: post_raises)
  next
    assume "answered c w (snd (delete loads c ep ps w)) r"
    from delete_answered [OF this] es show "fst (delete loads c ep ps w) = Inl (HTTPError (Some r))"
      by (simp add: delete_raises)
  qed
qed

theorem api_error_raised_witness:
  "400 \<le> status_code r403 \<and> status_code r403 < 600
   \<and> answered (client_demo r403) world0
        (snd (get loads_demo (client_demo r403) ''gateways'' None world0)) r403
   \<and> fst (get loads_demo (client_demo r403) ''gateways'' None world0) = Inl (HTTPError (Some r403))
   \<and> answered (client_demo r403) world0
        (snd (post loads_demo (client_demo r403) ''gateways'' None world0)) r403
   \<and> fst (post loads_demo (client_demo r403) ''gateways'' None world0) = Inl (HTTPError (Some r403))
   \<and> answered (client_demo r403) world0
        (snd (delete loads_demo (client_demo r403) ''gateways'' None world0)) r403
   \<and> fst (delete loads_demo (client_demo r403) ''gateways'' None world0) = Inl (HTTPError (Some r403))"
proof -
  have a: "400 \<le> status_code r403" and b: "status_code r403 < 600" by (simp_all add: r403_def)
  have g: "answered (client_demo r403) world0
        (snd (get loads_demo (client_demo r403) ''gateways'' None world0)) r403"
    by (simp add: answered_def demo_defs client_defs r403_def)
  have p: "answered (client_demo r403) world0
        (snd (post loads_demo (client_demo r403) ''gateways'' None world0)) r403"
    by (simp add: answered_def demo_defs client_defs r403_def)
  have d: "answered (client_demo r403) world0
        (snd (delete loads_demo (client_demo r403) ''gateways'' None world0)) r403"
    by (simp add: answered_def demo_defs client_defs r403_def)
  from api_error_raised [where r = r403 and c = "client_demo r403" and w = world0
         and loads = loads_demo and ep = "''gateways''" and ps = None and b = None] a b g p d
  show ?thesis by (simp del: sent_get sent_post sent_delete)
qed



text \<open>
  C2, as stated, fails for \<open>get\<close>: a 200 response whose body the decoder rejects makes
  \<open>get\<close> raise \<open>JSONDecodeError\<close>, and no warning is logged.
\<close>

theorem malformed_success_get_counterexample:
  "status_code r200_html = 200
   \<and> loads_demo (content r200_html) = Inl (JSONDecodeError ''Expecting value'')
   \<and> answered (client_demo r200_html) world0
        (snd (get loads_demo (client_demo r200_html) ''gateways'' None world0)) r200_html
   \<and> fst (get loads_demo (client_demo r200_html) ''gateways'' None world0)
        = Inl (JSONDecodeError ''Expecting value'')
   \<and> WARNING \<notin> fst ` set (logged (snd (get loads_demo (client_demo r200_html) ''gateways'' None world0)))"
  by (simp add: answered_def demo_defs client_defs r200_html_def)

text \<open>
  C2, amended. For a response whose status is no error status and whose body the decoder
  rejects with a JSON decode error: \<open>post\<close> (status other than 204) and \<open>delete\<close> (unless
  the status is 200 or 204 and the body is empty) return the empty mapping and log one
  warning after what \<open>_request\<close> logged; \<open>get\<close> raises the decode error.
\<close>

theorem malformed_success_tolerated:
  assumes "\<not> error_status r" and "loads (content r) = Inl (JSONDecodeError msg)"
  shows "(answered c w (snd (post loads c ep b w)) r \<and> status_code r \<noteq> 204 \<longrightarrow>
            post loads c ep b w =
              (Inr (JDict []),
               logger WARNING [Lit ''POST request to '', Val ep,
                               Lit '' did not return JSON. Status: '', Num (status_code r)]
                 (snd (request c ''POST'' ep [(''json'', b)] w))))
       \<and> (answered c w (snd (delete loads c ep ps w)) r
            \<and> \<not> ((status_code r = 200 \<or> status_code r = 204) \<and> content r = []) \<longrightarrow>
            delete loads c ep ps w =
              (Inr (JDict []),
               logger WARNING [Lit ''DELETE request to '', Val ep,
                               Lit '' did not return JSON. Status: '', Num (status_code r)]
                 (snd (request c ''DELETE'' ep [(''params'', ps)] w))))
       \<and> (answered c w (snd (get loads c ep ps w)) r \<longrightarrow>
            fst (get loads c ep ps w) = Inl (JSONDecodeError msg))"
proof (intro conjI impI)
  assume a: "answered c w (snd (post loads c ep b w)) r \<and> status_code r \<noteq> 204"
  then have "fst (request c ''POST'' ep [(''json'', b)] w) = Inr r"
    using post_answered [of c w loads ep b r] assms(1) by simp
  from post_returns [OF this, of loads] a assms(2)
  show "post loads c ep b w =
          (Inr (JDict []),
           logger WARNING [Lit ''POST request to '', Val ep,
                           Lit '' did not return JSON. Status: '', Num (status_code r)]
             (snd (request c ''POST'' ep [(''json'', b)] w)))"
    by (simp add: Let_def)
next
  assume a: "answered c w (snd (delete loads c ep ps w)) r
             \<and> \<not> ((status_code r = 200 \<or> status_code r = 204) \<and> content r = [])"
  then have "fst (request c ''DELETE'' ep [(''params'', ps)] w) = Inr r"
    using delete_answered [of c w loads ep ps r] assms(1) by simp
  from delete_returns [OF this, of loads] a assms(2)
  show "delete loads c ep ps w =
          (Inr (JDict []),
           logger WARNING [Lit ''DELETE request to '', Val ep,
                           Lit '' did not return JSON. Status: '', Num (status_code r)]
             (snd (request c ''DELETE'' ep [(''params'', ps)] w)))"
    by (auto simp: Let_def)
next
  assume "answered c w (snd (get loads c ep ps w)) r"
  then have "fst (request c ''GET'' ep [(''params'', ps)] w) = Inr r"
    using get_answered [of c w loads ep ps r] assms(1) by simp
  from get_returns [OF this, of loads] assms(2)
  show "fst (get loads c ep ps w) = Inl (JSONDecodeError msg)"
    by (simp add: response_json_loads)
qed

theorem malformed_success_tolerated_witness:
  "\<not> error_status r200_html
   \<and> loads_demo (content r200_html) = Inl (JSONDecodeError ''Expecting value'')
   \<and> answered (client_demo r200_html) world0
        (snd (post loads_demo (client_demo r200_html) ''groups/g1/users'' None world0)) r200_html
   \<and> status_code r200_html \<noteq> 204
   \<and> post loads_demo (client_demo r200_html) ''groups/g1/users'' None world0 =
        (Inr (JDict []),
         logger WARNING [Lit ''POST request to '', Val ''groups/g1/users'',
                         Lit '' did not return JSON. Status: '', Num 200]
           (snd (request (client_demo r200_html) ''POST'' ''groups/g1/users'' [(''json'', None)] world0)))
   \<and> answered (client_demo r200_html) world0
        (snd (delete loads_demo (client_demo r200_html) ''groups/g1/users'' None world0)) r200_html
   \<and> content r200_html \<noteq> []
   \<and> delete loads_demo (client_demo r200_html) ''groups/g1/users'' None world0 =
        (Inr (JDict []),
         logger WARNING [Lit ''DELETE request to '', Val ''groups/g1/users'',
                         Lit '' did not return JSON. Status: '', Num 200]
           (snd (request (client_demo r200_html) ''DELETE'' ''groups/g1/users'' [(''params'', None)] world0)))
   \<and> answered (client_demo r200_html) world0
        (snd (get loads_demo (client_demo r200_html) ''groups/g1/users'' None world0)) r200_html
   \<and> fst (get loads_demo (client_demo r200_html) ''groups/g1/users'' None world0)
        = Inl (JSONDecodeError ''Expecting value'')"
proof -
  have h1: "\<not> error_status r200_html" by (simp add: error_status_def r200_html_def)
  have h2: "loads_demo (content r200_html) = Inl (JSONDecodeError ''Expecting value'')"
    by (simp add: loads_demo_def r200_html_def)
  have h3: "status_code r200_html = 200" "content r200_html = ''<html>''"
    by (simp_all add: r200_html_def)
  have p: "answered (client_demo r200_html) world0
        (snd (post loads_demo (client_demo r200_html) ''groups/g1/users'' None world0)) r200_html"
    by (simp add: answered_def demo_defs client_defs r200_html_def)
  have d: "answered (client_demo r200_html) world0
        (snd (delete loads_demo (client_demo r200_html) ''groups/g1/users'' None world0)) r200_html"
    by (simp add: answered_def demo_defs client_defs r200_html_def)
  have g: "answered (client_demo r200_html) world0
        (snd (get loads_demo (client_demo r200_html) ''groups/g1/users'' None world0)) r200_html"
    by (simp add: answered_def demo_defs client_defs r200_html_def)
  from malformed_success_tolerated [where loads = loads_demo and r = r200_html
         and msg = "''Expecting value''"
         and c = "client_demo r200_html" and w = world0
         and ep = "''groups/g1/users''" and b = None and ps = None, OF h1 h2] h1 h2 h3 p d g
  show ?thesis by (simp del: sent_get sent_post sent_delete)
qed

text \<open>
  C3. For a 2xx response with an empty body, which the JSON decoder rejects with its
  decode error, \<open>post\<close> and \<open>delete\<close> return the empty mapping; they do not raise.
\<close>

theorem empty_body_success:
  assumes "loads [] = Inl (JSONDecodeError msg)" and "200 \<le> status_code r"
    and "status_code r < 300" and "content r = []"
  shows "(answered c w (snd (post loads c ep b w)) r \<longrightarrow>
            fst (post loads c ep b w) = Inr (JDict []))
       \<and> (answered c w (snd (delete loads c ep ps w)) r \<longrightarrow>
            fst (delete loads c ep ps w) = Inr (JDict []))"
proof -
  from assms(2,3) have ok: "\<not> error_status r" by (simp add: error_status_def)
  show ?thesis
  proof (intro conjI impI)
    assume "answered c w (snd (post loads c ep b w)) r"
    then have "fst (request c ''POST'' ep [(''json'', b)] w) = Inr r"
      using post_answered [of c w loads ep b r] ok by simp
    from post_returns [OF this, of loads] assms(1,4)
    show "fst (post loads c ep b w) = Inr (JDict [])"
      by (simp add: Let_def)
  next
    assume "answered c w (snd (delete loads c ep ps w)) r"
    then have "fst (request c ''DELETE'' ep [(''params'', ps)] w) = Inr r"
      using delete_answered [of c w loads ep ps r] ok by simp
    from delete_returns [OF this, of loads] assms(1,4)
    show "fst (delete loads c ep ps w) = Inr (JDict [])"
      by (simp add: Let_def)
  qed
qed

theorem empty_body_success_witness:
  "loads_demo [] = Inl (JSONDecodeError ''Expecting value'')
   \<and> 200 \<le> status_code r200_empty \<and> status_code r200_empty < 300
   \<and> content r200_empty = []
   \<and> answered (client_demo r200_empty) world0
        (snd (post loads_demo (client_demo r200_empty) ''groups/g1/users'' None world0)) r200_empty
   \<and> fst (post loads_demo (client_demo r200_empty) ''groups/g1/users'' None world0) = Inr (JDict [])
   \<and> answered (client_demo r200_empty) world0
        (snd (delete loads_demo (client_demo r200_empty) ''groups/g1/users'' None world0)) r200_empty
   \<and> fst (delete loads_demo (client_demo r200_empty) ''groups/g1/users'' None world0) = Inr (JDict [])"
proof -
  have h1: "loads_demo [] = Inl (JSONDecodeError ''Expecting value'')" by (simp add: loads_demo_def)
  have h2: "200 \<le> status_code r200_empty" and h3: "status_code r200_empty < 300"
    and h4: "content r200_empty = []"
    by (simp_all add: r200_empty_def)
  have p: "answered (client_demo r200_empty) world0
        (snd (post loads_demo (client_demo r200_empty) ''groups/g1/users'' None world0)) r200_empty"
    by (simp add: answered_def demo_defs client_defs r200_empty_def)
  have d: "answered (client_demo r200_empty) world0
        (snd (delete loads_demo (client_demo r200_empty) ''groups/g1/users'' None world0)) r200_empty"
    by (simp add: answered_def demo_defs client_defs r200_empty_def)
  from empty_body_success [where loads = loads_demo and r = r200_empty
         and msg = "''Expecting value''"
         and c = "client_demo r200_empty" and w = world0
         and ep = "''groups/g1/users''" and b = None and ps = None, OF h1 h2 h3 h4] h1 h2 h3 h4 p d
  show ?thesis by (simp del: sent_get sent_post sent_delete)
qed

text \<open>
  C4, as stated, fails for \<open>delete\<close> on an empty body, which is not valid JSON: a 200
  response with no content is reported at debug level, and no warning is logged.
\<close>

theorem non_json_200_delete_counterexample:
  "status_code r200_empty = 200
   \<and> loads_demo (content r200_empty) = Inl (JSONDecodeError ''Expecting value'')
   \<and> answered (client_demo r200_empty) world0
        (snd (delete loads_demo (client_demo r200_empty) ''groups/g1/users/u1'' None world0)) r200_empty
   \<and> fst (delete loads_demo (client_demo r200_empty) ''groups/g1/users/u1'' None world0)
        = Inr (JDict [])
   \<and> WARNING \<notin> fst ` set (logged (snd (delete loads_demo (client_demo r200_empty)
                                           ''groups/g1/users/u1'' None world0)))"
  by (simp add: answered_def demo_defs client_defs r200_empty_def)

text \<open>
  C4, amended. For a 200 response whose body the decoder rejects with a JSON decode
  error, \<open>post\<close> and \<open>delete\<close> return the empty mapping and do not raise; \<open>post\<close> logs a
  warning, and \<open>delete\<close> logs a warning when the body is not empty.
\<close>

theorem non_json_200_tolerated:
  assumes "status_code r = 200" and "loads (content r) = Inl (JSONDecodeError msg)"
  shows "(answered c w (snd (post loads c ep b w)) r \<longrightarrow>
            post loads c ep b w =
              (Inr (JDict []),
               logger WARNING [Lit ''POST request to '', Val ep,
                               Lit '' did not return JSON. Status: '', Num 200]
                 (snd (request c ''POST'' ep [(''json'', b)] w))))
       \<and> (answered c w (snd (delete loads c ep ps w)) r \<longrightarrow>
            fst (delete loads c ep ps w) = Inr (JDict []))
       \<and> (answered c w (snd (delete loads c ep ps w)) r \<and> content r \<noteq> [] \<longrightarrow>
            delete loads c ep ps w =
              (Inr (JDict []),
               logger WARNING [Lit ''DELETE request to '', Val ep,
                               Lit '' did not return JSON. Status: '', Num 200]
                 (snd (request c ''DELETE'' ep [(''params'', ps)] w))))"
proof -
  from assms(1) have ok: "\<not> error_status r" by (simp add: error_status_def)
  show ?thesis
  proof (intro conjI impI)
    assume "answered c w (snd (post loads c ep b w)) r"
    then have "fst (request c ''POST'' ep [(''json'', b)] w) = Inr r"
      using post_answered [of c w loads ep b r] ok by simp
    from post_returns [OF this, of loads] assms
    show "post loads c ep b w =
            (Inr (JDict []),
             logger WARNING [Lit ''POST request to '', Val ep,
                             Lit '' did not return JSON. Status: '', Num 200]
               (snd (request c ''POST'' ep [(''json'', b)] w)))"
      by (simp add: Let_def)
  next
    assume "answered c w (snd (delete loads c ep ps w)) r"
    then have "fst (request c ''DELETE'' ep [(''params'', ps)] w) = Inr r"
      using delete_answered [of c w loads ep ps r] ok by simp
    from delete_returns [OF this, of loads] assms
    show "fst (delete loads c ep ps w) = Inr (JDict [])"
      by (simp add: Let_def)
  next
    assume a: "answered c w (snd (delete loads c ep ps w)) r \<and> content r \<noteq> []"
    then have "fst (request c ''DELETE'' ep [(''params'', ps)] w) = Inr r"
      using delete_answered [of c w loads ep ps r] ok by simp
    from delete_returns [OF this, of loads] assms a
    show "delete loads c ep ps w =
            (Inr (JDict []),
             logger WARNING [Lit ''DELETE request to '', Val ep,
                             Lit '' did not return JSON. Status: '', Num 200]
               (snd (request c ''DELETE'' ep [(''params'', ps)] w)))"
      by (simp add: Let_def)
  qed
qed

theorem non_json_200_tolerated_witness:
  "status_code r200_html = 200
   \<and> loads_demo (content r200_html) = Inl (JSONDecodeError ''Expecting value'')
   \<and> answered (client_demo r200_html) world0
        (snd (post loads_demo (client_demo r200_html) ''groups/g1/users'' None world0)) r200_html
   \<and> post loads_demo (client_demo r200_html) ''groups/g1/users'' None world0 =
        (Inr (JDict []),
         logger WARNING [Lit ''POST request to '', Val ''groups/g1/users'',
                         Lit '' did not return JSON. Status: '', Num 200]
           (snd (request (client_demo r200_html) ''POST'' ''groups/g1/users'' [(''json'', None)] world0)))
   \<and> answered (client_demo r200_html) world0
        (snd (delete loads_demo (client_demo r200_html) ''groups/g1/users'' None world0)) r200_html
   \<and> content r200_html \<noteq> []
   \<and> fst (delete loads_demo (client_demo r200_html) ''groups/g1/users'' None world0) = Inr (JDict [])
   \<and> delete loads_demo (client_demo r200_html) ''groups/g1/users'' None world0 =
        (Inr (JDict []),
         logger WARNING [Lit ''DELETE request to '', Val ''groups/g1/users'',
                         Lit '' did not return JSON. Status: '', Num 200]
           (snd (request (client_demo r200_html) ''DELETE'' ''groups/g1/users'' [(''params'', None)] world0)))"
proof -
  have h1: "status_code r200_html = 200" by (simp add: r200_html_def)
  have h2: "loads_demo (content r200_html) = Inl (JSONDecodeError ''Expecting value'')"
    by (simp add: loads_demo_def r200_html_def)
  have h3: "content r200_html \<noteq> []" by (simp add: r200_html_def)
  have p: "answered (client_demo r200_html) world0
        (snd (post loads_demo (client_demo r200_html) ''groups/g1/users'' None world0)) r200_html"
    by (simp add: answered_def demo_defs client_defs r200_html_def)
  have d: "answered (client_demo r200_html) world0
        (snd (delete loads_demo (client_demo r200_html) ''groups/g1/users'' None world0)) r200_html"
    by (simp add: answered_def demo_defs client_defs r200_html_def)
  from non_json_200_tolerated [where loads = loads_demo and r = r200_html
         and msg = "''Expecting value''"
         and c = "client_demo r200_html" and w = world0
         and ep = "''groups/g1/users''" and b = None and ps = None, OF h1 h2] h1 h2 h3 p d
  show ?thesis by (simp del: sent_get sent_post sent_delete)
qed


text \<open>
  Any exception of the decoder other than its decode error escapes all three verbs: the
  handlers of \<open>post\<close> and \<open>delete\<close> name \<open>JSONDecodeError\<close> only.
\<close>

lemma decoder_exception_escapes:
  assumes "\<not> error_status r" and "loads (content r) = Inl e" and "\<not> isinstance_JSONDecodeError e"
  shows "(answered c w (snd (get loads c ep ps w)) r \<longrightarrow> fst (get loads c ep ps w) = Inl e)
       \<and> (answered c w (snd (post loads c ep b w)) r \<and> status_code r \<noteq> 204 \<longrightarrow>
            fst (post loads c ep b w) = Inl e)
       \<and> (answered c w (snd (delete loads c ep ps w)) r
            \<and> \<not> ((status_code r = 200 \<or> status_code r = 204) \<and> content r = []) \<longrightarrow>
            fst (delete loads c ep ps w) = Inl e)"
proof (intro conjI impI)
  assume "answered c w (snd (get loads c ep ps w)) r"
  then have "fst (request c ''GET'' ep [(''params'', ps)] w) = Inr r"
    using get_answered [of c w loads ep ps r] assms(1) by simp
  from get_returns [OF this, of loads] assms(2)
  show "fst (get loads c ep ps w) = Inl e" by (simp add: response_json_loads)
next
  assume a: "answered c w (snd (post loads c ep b w)) r \<and> status_code r \<noteq> 204"
  then have "fst (request c ''POST'' ep [(''json'', b)] w) = Inr r"
    using post_answered [of c w loads ep b r] assms(1) by simp
  from post_returns [OF this, of loads] a assms(2,3)
  show "fst (post loads c ep b w) = Inl e" by (simp add: Let_def)
next
  assume a: "answered c w (snd (delete loads c ep ps w)) r
             \<and> \<not> ((status_code r = 200 \<or> status_code r = 204) \<and> content r = [])"
  then have "fst (request c ''DELETE'' ep [(''params'', ps)] w) = Inr r"
    using delete_answered [of c w loads ep ps r] assms(1) by simp
  from delete_returns [OF this, of loads] a assms(2,3)
  show "fst (delete loads c ep ps w) = Inl e" by (auto simp: Let_def)
qed

section \<open>Token acquisition\<close>

lemma chained_get_token_all_fail:
  "\<forall>s \<in> set cs. isl (s scopes) \<Longrightarrow> chained_get_token cs scopes = Inl chain_failed"
proof (induction cs)
  case Nil
  show ?case by simp
next
  case (Cons c cs)
  then obtain ex where "c scopes = Inl ex" by (cases "c scopes") auto
  with Cons show ?case by simp
qed

text \<open>
  The handler for \<open>CredentialUnavailableError\<close> is reached when the strategy that
  succeeded before, asked alone, has become unavailable: \<open>get_access_token\<close> then raises
  that exception and logs the attempt, the failure and the remediation guidance.
\<close>

lemma successful_credential_unavailable:
  assumes "successful_credential (credential a) = Some s"
    and "s (scope a) = Inl (CredentialUnavailableError m None)"
  shows "fst (get_access_token a w) = Inl (CredentialUnavailableError m None)
       \<and> map fst (logged (snd (get_access_token a w))) = map fst (logged w) @ [INFO, ERROR, ERROR]"
  using assms by (simp add: get_access_token_def get_token_def Let_def)

text \<open>
  C5 against the code. On a credential that has not produced a token before, when every
  strategy fails, the chain raises \<open>ClientAuthenticationError\<close>, which is not a
  \<open>CredentialUnavailableError\<close>: \<open>get_access_token\<close> takes the handler for unexpected
  exceptions, logs the attempt and one error record without the remediation guidance,
  and raises the \<open>ClientAuthenticationError\<close> of the chain; no token is returned.
\<close>

theorem all_strategies_fail_client_authentication_error:
  assumes "successful_credential (credential a) = None"
    and "\<forall>s \<in> set (credentials (credential a)). isl (s (scope a))"
  shows "get_access_token a w =
           (Inl chain_failed,
            logger ERROR [Lit ''An unexpected error occurred during token acquisition: '',
                          Err chain_failed]
              (logger INFO [Lit ''Attempting to acquire token using DefaultAzureCredential...''] w))
       \<and> \<not> isinstance_CredentialUnavailableError chain_failed"
proof -
  from chained_get_token_all_fail [OF assms(2)] assms(1)
  have "get_token (credential a) (scope a) = Inl chain_failed"
    by (simp add: get_token_def)
  then show ?thesis
    by (simp add: get_access_token_def Let_def chain_failed_def)
qed

theorem all_strategies_fail_client_authentication_error_witness:
  "successful_credential (credential (PowerBIAuth_init None [strategy_unavailable, strategy_unavailable])) = None
   \<and> credentials (credential (PowerBIAuth_init None [strategy_unavailable, strategy_unavailable]))
       = [strategy_unavailable, strategy_unavailable]
   \<and> isl (strategy_unavailable (scope (PowerBIAuth_init None [strategy_unavailable, strategy_unavailable])))
   \<and> fst (get_access_token (PowerBIAuth_init None [strategy_unavailable, strategy_unavailable]) world0)
       = Inl (ClientAuthenticationError
                ''DefaultAzureCredential failed to retrieve a token from the included credentials.'' None)
   \<and> logged (snd (get_access_token (PowerBIAuth_init None [strategy_unavailable, strategy_unavailable]) world0))
       = [(INFO, [Lit ''Attempting to acquire token using DefaultAzureCredential...'']),
          (ERROR, [Lit ''An unexpected error occurred during token acquisition: '',
                   Err (ClientAuthenticationError
                          ''DefaultAzureCredential failed to retrieve a token from the included credentials.''
                          None)])]"
proof -
  have h1: "successful_credential (credential (PowerBIAuth_init None [strategy_unavailable, strategy_unavailable])) = None"
    by (simp add: PowerBIAuth_init_def)
  have h2: "\<forall>s \<in> set (credentials (credential (PowerBIAuth_init None [strategy_unavailable, strategy_unavailable]))).
         isl (s (scope (PowerBIAuth_init None [strategy_unavailable, strategy_unavailable])))"
    by (simp add: PowerBIAuth_init_def strategy_unavailable_def)
  have h3: "credentials (credential (PowerBIAuth_init None [strategy_unavailable, strategy_unavailable]))
       = [strategy_unavailable, strategy_unavailable]"
    and h4: "isl (strategy_unavailable (scope (PowerBIAuth_init None [strategy_unavailable, strategy_unavailable])))"
    by (simp_all add: PowerBIAuth_init_def strategy_unavailable_def)
  from all_strategies_fail_client_authentication_error [OF h1 h2, of world0] h1 h3 h4
  show ?thesis by (simp add: chain_failed_def world0_def logger_def)
qed

section \<open>The request URL\<close>

text \<open>
  C9. The URL of an endpoint is the base URL, one separator and the endpoint without its
  leading separators; right after the base URL there is never a double separator; and
  this is the URL of the request that \<open>_request\<close> hands to the session.
\<close>

theorem request_url_join:
  "request_url endpoint = BASE_URL @ ''/'' @ dropWhile (\<lambda>x. x = CHR ''/'') endpoint
   \<and> take 2 (drop (length BASE_URL) (request_url endpoint)) \<noteq> ''//''
   \<and> map url (sent (snd (request c meth endpoint kw w)))
       = (if isl (fst (get_access_token (auth c) w)) then map url (sent w)
          else map url (sent w) @ [request_url endpoint])"
proof (intro conjI)
  show u: "request_url endpoint = BASE_URL @ ''/'' @ dropWhile (\<lambda>x. x = CHR ''/'') endpoint"
    by (simp add: request_url_def lstrip_def)
  show "take 2 (drop (length BASE_URL) (request_url endpoint)) \<noteq> ''//''"
  proof (cases "dropWhile (\<lambda>x. x = CHR ''/'') endpoint")
    case Nil
    with u show ?thesis by simp
  next
    case (Cons x xs)
    then have "x \<noteq> CHR ''/''"
      using hd_dropWhile [of "\<lambda>x. x = CHR ''/''" endpoint] by simp
    with u Cons show ?thesis by simp
  qed
  show "map url (sent (snd (request c meth endpoint kw w)))
       = (if isl (fst (get_access_token (auth c) w)) then map url (sent w)
          else map url (sent w) @ [request_url endpoint])"
  proof (cases "get_access_token (auth c) w")
    case (Pair res w1)
    then have "sent w1 = sent w" using sent_get_access_token [of "auth c" w] by simp
    with Pair show ?thesis
      by (auto simp: request_def get_headers_def Let_def raise_for_status_def
               split: sum.splits)
  qed
qed

theorem request_url_join_witness:
  "request_url ''//gateways'' = ''https://api.powerbi.com/v1.0/myorg/gateways''
   \<and> request_url ''gateways'' = ''https://api.powerbi.com/v1.0/myorg/gateways''
   \<and> take 2 (drop (length BASE_URL) (request_url ''//gateways'')) \<noteq> ''//''
   \<and> map url (sent (snd (request (client_demo r200_dict) ''GET'' ''//gateways'' [] world0)))
       = [''https://api.powerbi.com/v1.0/myorg/gateways'']"
proof -
  have t: "\<not> isl (fst (get_access_token (auth (client_demo r200_dict)) world0))"
    by (simp add: demo_defs get_access_token_def get_token_def Let_def)
  from request_url_join [of "''//gateways''" "client_demo r200_dict" "''GET''" "[]" world0]
       request_url_join [of "''gateways''" "client_demo r200_dict" "''GET''" "[]" world0] t
  show ?thesis by (simp add: BASE_URL_def world0_def)
qed

section \<open>The domain modules\<close>

lemma sent_log_api_error [simp]: "sent (log_api_error loads e w) = sent w"
  by (simp add: log_api_error_def Let_def split: option.splits sum.splits)

lemma log_api_error_records:
  "error_response e = Some r \<Longrightarrow>
   logged (log_api_error loads e w) =
     logged w @ [(ERROR, [Lit ''API Response Status: '', Num (status_code r)]),
                 (ERROR, [Lit ''API Response Body: '',
                          (case loads (content r) of Inr j \<Rightarrow> Obj j | Inl x \<Rightarrow> Val (content r))])]"
  by (simp add: log_api_error_def Let_def response_json_loads response_text_def split: sum.splits)

lemma last_log_api_error:
  "logged (log_api_error loads e (logger ERROR m w)) \<noteq> []
   \<and> fst (last (logged (log_api_error loads e (logger ERROR m w)))) = ERROR"
  by (simp add: log_api_error_def Let_def split: option.splits sum.splits)

lemma succeeded_cong:
  "sent w1 = sent w2 \<Longrightarrow> sent w1' = sent w2' \<Longrightarrow> succeeded c w1 w1' = succeeded c w2 w2'"
  by (simp add: succeeded_def)

lemma answered_cong:
  "sent w1 = sent w2 \<Longrightarrow> sent w1' = sent w2' \<Longrightarrow> answered c w1 w1' r = answered c w2 w2' r"
  by (simp add: answered_def)

lemma get_pair_sent:
  assumes "get loads c ep ps w1 = (res, w2)"
  shows "sent w2 = sent (snd (request c ''GET'' ep [(''params'', ps)] w1))"
proof -
  have "sent (snd (get loads c ep ps w1)) = sent (snd (request c ''GET'' ep [(''params'', ps)] w1))"
    by (rule sent_get)
  then show ?thesis by (simp only: assms snd_conv)
qed

lemma post_pair_sent:
  assumes "post loads c ep b w1 = (res, w2)"
  shows "sent w2 = sent (snd (request c ''POST'' ep [(''json'', b)] w1))"
proof -
  have "sent (snd (post loads c ep b w1)) = sent (snd (request c ''POST'' ep [(''json'', b)] w1))"
    by (rule sent_post)
  then show ?thesis by (simp only: assms snd_conv)
qed

text \<open>The result of a \<open>get\<close> whose request the session answered.\<close>

lemma get_pair_answered:
  assumes g: "get loads c ep ps w1 = (res, w2)" and "sent w1 = sent w" and "sent w' = sent w2"
    and a: "answered c w w' r"
  shows "res = (if error_status r then Inl (HTTPError (Some r)) else response_json loads r)"
proof -
  from a assms(2,3) have "answered c w1 w2 r" by (simp add: answered_def)
  with g have "answered c w1 (snd (get loads c ep ps w1)) r" by simp
  from get_answered [OF this]
  have q: "fst (request c ''GET'' ep [(''params'', ps)] w1) =
             (if error_status r then Inl (HTTPError (Some r)) else Inr r)" .
  show ?thesis
  proof (cases "error_status r")
    case True
    with q get_raises [of c ep ps w1 "HTTPError (Some r)" loads] g show ?thesis by simp
  next
    case False
    with q get_returns [of c ep ps w1 r loads] g show ?thesis by simp
  qed
qed

lemma post_returned_cong:
  "sent w1 = sent w2 \<Longrightarrow> sent w1' = sent w2' \<Longrightarrow>
   post_returned loads c w1 w1' = post_returned loads c w2 w2'"
  by (simp add: post_returned_def)

lemma post_isl:
  assumes "fst (request c ''POST'' ep [(''json'', b)] w) = Inr r"
  shows "isl (fst (post loads c ep b w)) \<longleftrightarrow> \<not> (status_code r = 204 \<or> json_tolerated loads r)"
  using post_returns [OF assms, of loads]
  by (auto simp: Let_def json_tolerated_def split: sum.splits)

text \<open>\<open>post\<close> returns exactly when its request succeeded and the answer is tolerated.\<close>

lemma post_returned_iff:
  "isl (fst (post loads c ep b w)) \<longleftrightarrow> \<not> post_returned loads c w (snd (post loads c ep b w))"
proof (cases "fst (request c ''POST'' ep [(''json'', b)] w)")
  case (Inl e)
  from request_succeeded [of c "''POST''" ep "[(''json'', b)]" w] Inl
  have "\<not> succeeded c w (snd (request c ''POST'' ep [(''json'', b)] w))" by simp
  then have "\<not> post_returned loads c w (snd (post loads c ep b w))"
    by (auto simp: post_returned_def succeeded_def split: sum.splits)
  with post_raises [OF Inl, of loads] show ?thesis by simp
next
  case (Inr r)
  from request_succeeded [of c "''POST''" ep "[(''json'', b)]" w] Inr
  have sc: "succeeded c w (snd (request c ''POST'' ep [(''json'', b)] w))" by simp
  then have a: "answered c w (snd (request c ''POST'' ep [(''json'', b)] w))
                  (projr (session c (last (sent (snd (request c ''POST'' ep [(''json'', b)] w))))))"
    by (auto simp: succeeded_def answered_def split: sum.splits)
  let ?r' = "projr (session c (last (sent (snd (request c ''POST'' ep [(''json'', b)] w)))))"
  from request_answered [OF a] Inr have r': "?r' = r" by (simp split: if_splits)
  from sc r' have s: "session c (last (sent (snd (request c ''POST'' ep [(''json'', b)] w)))) = Inr r"
    and ne: "\<not> error_status r"
    and st: "sent (snd (request c ''POST'' ep [(''json'', b)] w))
             = sent w @ [last (sent (snd (request c ''POST'' ep [(''json'', b)] w)))]"
    by (auto simp: succeeded_def split: sum.splits)
  from s st ne have "post_returned loads c w (snd (post loads c ep b w))
        \<longleftrightarrow> status_code r = 204 \<or> json_tolerated loads r"
    by (simp add: post_returned_def)
  with post_isl [OF Inr, of loads] show ?thesis by simp
qed

text \<open>The three listing operations after their \<open>get\<close>.\<close>

lemma get_gateways_after:
  assumes "get loads c ''gateways'' None (logger INFO [Lit ''Fetching gateways...''] w) = (res, w2)"
  shows "sent (snd (get_gateways loads c w)) = sent w2"
    and "res = Inr (JDict kvs) \<Longrightarrow> map_of kvs ''value'' = None \<Longrightarrow>
         fst (get_gateways loads c w) = Inr (JList [])"
  using assms
  by (auto simp: get_gateways_def Let_def py_get_def py_len_def split: sum.splits json.splits option.splits)

lemma get_gateway_datasources_after:
  assumes "get loads c (''gateways/'' @ gid @ ''/datasources'') None
             (logger INFO [Lit ''Fetching datasources for gateway ID: '', Val gid] w) = (res, w2)"
  shows "sent (snd (get_gateway_datasources loads c gid w)) = sent w2"
    and "res = Inr (JDict kvs) \<Longrightarrow> map_of kvs ''value'' = None \<Longrightarrow>
         fst (get_gateway_datasources loads c gid w) = Inr (JList [])"
  using assms
  by (auto simp: get_gateway_datasources_def Let_def py_get_def py_len_def
           split: sum.splits json.splits option.splits)

lemma get_workspaces_after:
  assumes "get loads c ''groups'' (Some (JDict (get_workspaces_params f t s)))
             (logger INFO [Lit ''Fetching workspaces...''] w) = (res, w2)"
  shows "sent (snd (get_workspaces loads c f t s w)) = sent w2"
    and "res = Inr (JDict kvs) \<Longrightarrow> map_of kvs ''value'' = None \<Longrightarrow>
         fst (get_workspaces loads c f t s w) = Inr (JList [])"
  using assms
  by (auto simp: get_workspaces_def Let_def py_get_def py_len_def
           split: sum.splits json.splits option.splits)

text \<open>
  C10. When the session answers a listing call with a response that is no error status
  and whose body decodes to a mapping without the key \<open>value\<close>, \<open>get_gateways\<close>,
  \<open>get_gateway_datasources\<close> and \<open>get_workspaces\<close> return the empty list.
\<close>

theorem listing_without_value:
  assumes "\<not> error_status r" and "loads (content r) = Inr (JDict kvs)"
    and "map_of kvs ''value'' = None"
  shows "(answered c w (snd (get_gateways loads c w)) r \<longrightarrow>
            fst (get_gateways loads c w) = Inr (JList []))
       \<and> (answered c w (snd (get_gateway_datasources loads c gateway_id w)) r \<longrightarrow>
            fst (get_gateway_datasources loads c gateway_id w) = Inr (JList []))
       \<and> (answered c w (snd (get_workspaces loads c filter_str top_n skip_n w)) r \<longrightarrow>
            fst (get_workspaces loads c filter_str top_n skip_n w) = Inr (JList []))"
proof -
  from assms(2) have j: "response_json loads r = Inr (JDict kvs)"
    by (simp add: response_json_loads)
  show ?thesis
  proof (intro conjI impI)
    assume a: "answered c w (snd (get_gateways loads c w)) r"
    obtain res w2 where
      g: "get loads c ''gateways'' None (logger INFO [Lit ''Fetching gateways...''] w) = (res, w2)"
      by (cases "get loads c ''gateways'' None (logger INFO [Lit ''Fetching gateways...''] w)")
    from get_pair_answered [OF g _ get_gateways_after(1) [OF g] a] assms(1) j
    have "res = Inr (JDict kvs)" by simp
    from get_gateways_after(2) [OF g this assms(3)]
    show "fst (get_gateways loads c w) = Inr (JList [])" .
  next
    assume a: "answered c w (snd (get_gateway_datasources loads c gateway_id w)) r"
    obtain res w2 where
      g: "get loads c (''gateways/'' @ gateway_id @ ''/datasources'') None
            (logger INFO [Lit ''Fetching datasources for gateway ID: '', Val gateway_id] w) = (res, w2)"
      by (cases "get loads c (''gateways/'' @ gateway_id @ ''/datasources'') None
            (logger INFO [Lit ''Fetching datasources for gateway ID: '', Val gateway_id] w)")
    from get_pair_answered [OF g _ get_gateway_datasources_after(1) [OF g] a] assms(1) j
    have "res = Inr (JDict kvs)" by simp
    from get_gateway_datasources_after(2) [OF g this assms(3)]
    show "fst (get_gateway_datasources loads c gateway_id w) = Inr (JList [])" .
  next
    assume a: "answered c w (snd (get_workspaces loads c filter_str top_n skip_n w)) r"
    obtain res w2 where
      g: "get loads c ''groups'' (Some (JDict (get_workspaces_params filter_str top_n skip_n)))
            (logger INFO [Lit ''Fetching workspaces...''] w) = (res, w2)"
      by (cases "get loads c ''groups'' (Some (JDict (get_workspaces_params filter_str top_n skip_n)))
            (logger INFO [Lit ''Fetching workspaces...''] w)")
    from get_pair_answered [OF g _ get_workspaces_after(1) [OF g] a] assms(1) j
    have "res = Inr (JDict kvs)" by simp
    from get_workspaces_after(2) [OF g this assms(3)]
    show "fst (get_workspaces loads c filter_str top_n skip_n w) = Inr (JList [])" .
  qed
qed

lemmas domain_defs = get_gateways_def get_gateway_datasources_def get_workspaces_def
  get_workspaces_params_def get_gateway_datasource_users_def get_gateway_datasource_users_try_def
  add_datasource_user_def add_datasource_user_payload_def add_workspace_user_def
  add_workspace_user_payload_def delete_workspace_user_def log_api_error_def py_get_def
  py_len_def truthy_str_def truthy_dict_def error_status_def json_tolerated_def

theorem listing_without_value_witness:
  "\<not> error_status r200_dict \<and> loads_demo (content r200_dict) = Inr (JDict [])
   \<and> map_of ([] :: (string \<times> json) list) ''value'' = None
   \<and> answered (client_demo r200_dict) world0 (snd (get_gateways loads_demo (client_demo r200_dict) world0)) r200_dict
   \<and> fst (get_gateways loads_demo (client_demo r200_dict) world0) = Inr (JList [])
   \<and> answered (client_demo r200_dict) world0
        (snd (get_gateway_datasources loads_demo (client_demo r200_dict) ''gw1'' world0)) r200_dict
   \<and> fst (get_gateway_datasources loads_demo (client_demo r200_dict) ''gw1'' world0) = Inr (JList [])
   \<and> answered (client_demo r200_dict) world0
        (snd (get_workspaces loads_demo (client_demo r200_dict) (Some ''startswith(name, x)'') (Some 5) None world0)) r200_dict
   \<and> fst (get_workspaces loads_demo (client_demo r200_dict) (Some ''startswith(name, x)'') (Some 5) None world0)
        = Inr (JList [])"
proof -
  have h1: "\<not> error_status r200_dict" by (simp add: error_status_def r200_dict_def)
  have h2: "loads_demo (content r200_dict) = Inr (JDict [])" by (simp add: loads_demo_def r200_dict_def)
  have h3: "map_of ([] :: (string \<times> json) list) ''value'' = None" by simp
  have a1: "answered (client_demo r200_dict) world0
              (snd (get_gateways loads_demo (client_demo r200_dict) world0)) r200_dict"
    by (simp add: answered_def demo_defs client_defs domain_defs r200_dict_def)
  have a2: "answered (client_demo r200_dict) world0
        (snd (get_gateway_datasources loads_demo (client_demo r200_dict) ''gw1'' world0)) r200_dict"
    by (simp add: answered_def demo_defs client_defs domain_defs r200_dict_def)
  have a3: "answered (client_demo r200_dict) world0
        (snd (get_workspaces loads_demo (client_demo r200_dict) (Some ''startswith(name, x)'') (Some 5) None world0)) r200_dict"
    by (simp add: answered_def demo_defs client_defs domain_defs r200_dict_def)
  from listing_without_value [where loads = loads_demo and r = r200_dict and kvs = "[]"
         and c = "client_demo r200_dict" and w = world0 and gateway_id = "''gw1''"
         and filter_str = "Some ''startswith(name, x)''" and top_n = "Some 5" and skip_n = None,
         OF h1 h2 h3] h1 h2 h3 a1 a2 a3
  show ?thesis by simp
qed



text \<open>
  C6, as stated, fails in its last part: a 200 response does not suffice for \<open>True\<close>.
  When the decoder raises something other than its decode error on the body (here a
  body nested beyond the recursion limit), \<open>post\<close> raises, and \<open>add_workspace_user\<close>
  catches the exception and returns \<open>False\<close>.
\<close>

theorem add_workspace_user_200_counterexample:
  "answered (client_demo r200_deep) world0
      (snd (add_workspace_user loads_demo (client_demo r200_deep) ''g1'' ''ann@example.org''
              ''User'' ''Member'' None world0)) r200_deep
   \<and> status_code r200_deep = 200
   \<and> fst (add_workspace_user loads_demo (client_demo r200_deep) ''g1'' ''ann@example.org''
            ''User'' ''Member'' None world0) = Inr False"
  by (simp add: answered_def demo_defs client_defs domain_defs r200_deep_def)

text \<open>
  C6, amended. \<open>add_workspace_user\<close> for a \<open>User\<close> principal without an email address:
  once a token is acquired, the one request handed to the session is a POST to
  \<open>groups/{id}/users\<close> whose JSON payload holds \<open>identifier\<close>, \<open>principalType\<close>,
  \<open>groupUserAccessRight\<close> and \<open>emailAddress\<close>, the last equal to the identifier; and when
  the session answers it with a 200 response, the operation returns \<open>True\<close> exactly when
  decoding the body gives a document or a JSON decode error.
\<close>

theorem add_workspace_user_email_from_identifier:
  assumes "get_token (credential (auth c)) (scope (auth c)) = Inr info"
  shows "sent (snd (add_workspace_user loads c workspace_id identifier ''User'' access_right None w))
           = sent w @
             [\<lparr>http_method = ''POST'',
               url = BASE_URL @ ''/groups/'' @ workspace_id @ ''/users'',
               headers = [(''Authorization'', ''Bearer '' @ token info),
                          (''Content-Type'', ''application/json'')],
               kwargs = [(''json'',
                          Some (JDict [(''identifier'', JStr identifier),
                                       (''principalType'', JStr ''User''),
                                       (''groupUserAccessRight'', JStr access_right),
                                       (''emailAddress'', JStr identifier)]))]\<rparr>]
       \<and> (answered c w
             (snd (add_workspace_user loads c workspace_id identifier ''User'' access_right None w)) r
            \<and> status_code r = 200 \<longrightarrow>
            fst (add_workspace_user loads c workspace_id identifier ''User'' access_right None w)
              = Inr (json_tolerated loads r))"
proof -
  let ?w1 = "logger INFO [Lit ''Adding '', Val ''User'', Lit '' ('', Val identifier,
                          Lit '') to workspace '', Val workspace_id, Lit '' with rights: '',
                          Val access_right] w"
  let ?w2 = "logger WARNING [Lit ''Adding User principal ('', Val identifier,
                             Lit '') without explicit emailAddress. Assuming identifier is email/UPN.''] ?w1"
  let ?payload = "[(''identifier'', JStr identifier), (''principalType'', JStr ''User''),
                   (''groupUserAccessRight'', JStr access_right), (''emailAddress'', JStr identifier)]"
  let ?ep = "''groups/'' @ workspace_id @ ''/users''"
  have pl: "add_workspace_user_payload identifier ''User'' access_right None ?w1 = (?payload, ?w2)"
    by (simp add: add_workspace_user_payload_def truthy_str_def)
  obtain res w3 where p: "post loads c ?ep (Some (JDict ?payload)) ?w2 = (res, w3)"
    by (cases "post loads c ?ep (Some (JDict ?payload)) ?w2")
  have s3: "sent (snd (add_workspace_user loads c workspace_id identifier ''User'' access_right None w))
            = sent w3"
    using pl p by (simp add: add_workspace_user_def Let_def split: sum.splits)
  have s4: "sent w3 = sent (snd (request c ''POST'' ?ep [(''json'', Some (JDict ?payload))] ?w2))"
    by (rule post_pair_sent [OF p])
  have s5: "sent (snd (request c ''POST'' ?ep [(''json'', Some (JDict ?payload))] ?w2))
            = sent w @
             [\<lparr>http_method = ''POST'',
               url = BASE_URL @ ''/groups/'' @ workspace_id @ ''/users'',
               headers = [(''Authorization'', ''Bearer '' @ token info),
                          (''Content-Type'', ''application/json'')],
               kwargs = [(''json'', Some (JDict ?payload))]\<rparr>]"
    using assms
    by (simp add: request_def request_url_def lstrip_def get_headers_def get_access_token_def
                  Let_def raise_for_status_def split: sum.splits)
  have sending: "sent (snd (add_workspace_user loads c workspace_id identifier ''User'' access_right None w))
           = sent w @
             [\<lparr>http_method = ''POST'',
               url = BASE_URL @ ''/groups/'' @ workspace_id @ ''/users'',
               headers = [(''Authorization'', ''Bearer '' @ token info),
                          (''Content-Type'', ''application/json'')],
               kwargs = [(''json'', Some (JDict ?payload))]\<rparr>]"
    using s3 s4 s5 by simp
  have on_200: "answered c w
             (snd (add_workspace_user loads c workspace_id identifier ''User'' access_right None w)) r
            \<and> status_code r = 200 \<longrightarrow>
            fst (add_workspace_user loads c workspace_id identifier ''User'' access_right None w)
              = Inr (json_tolerated loads r)"
  proof (rule impI)
    assume a: "answered c w
                 (snd (add_workspace_user loads c workspace_id identifier ''User'' access_right None w)) r
               \<and> status_code r = 200"
    then have ok: "\<not> error_status r" by (simp add: error_status_def)
    from a s3 have "answered c ?w2 w3 r" by (simp add: answered_def)
    with p have "answered c ?w2 (snd (post loads c ?ep (Some (JDict ?payload)) ?w2)) r" by simp
    from post_answered [OF this] ok
    have q: "fst (request c ''POST'' ?ep [(''json'', Some (JDict ?payload))] ?w2) = Inr r" by simp
    from post_isl [OF q, of loads] p a have "isl res \<longleftrightarrow> \<not> json_tolerated loads r"
      by simp
    with pl p
    show "fst (add_workspace_user loads c workspace_id identifier ''User'' access_right None w)
            = Inr (json_tolerated loads r)"
      by (cases res) (simp_all add: add_workspace_user_def Let_def)
  qed
  from sending on_200 show ?thesis by (intro conjI)
qed

theorem add_workspace_user_email_from_identifier_witness:
  "get_token (credential (auth (client_demo r200_empty))) (scope (auth (client_demo r200_empty)))
     = Inr \<lparr>token = ''tok'', expires_on = 0\<rparr>
   \<and> sent (snd (add_workspace_user loads_demo (client_demo r200_empty) ''g1'' ''ann@example.org''
                  ''User'' ''Member'' None world0))
       = [\<lparr>http_method = ''POST'',
           url = ''https://api.powerbi.com/v1.0/myorg/groups/g1/users'',
           headers = [(''Authorization'', ''Bearer tok''), (''Content-Type'', ''application/json'')],
           kwargs = [(''json'',
                      Some (JDict [(''identifier'', JStr ''ann@example.org''),
                                   (''principalType'', JStr ''User''),
                                   (''groupUserAccessRight'', JStr ''Member''),
                                   (''emailAddress'', JStr ''ann@example.org'')]))]\<rparr>]
   \<and> answered (client_demo r200_empty) world0
        (snd (add_workspace_user loads_demo (client_demo r200_empty) ''g1'' ''ann@example.org''
                ''User'' ''Member'' None world0)) r200_empty
   \<and> status_code r200_empty = 200
   \<and> json_tolerated loads_demo r200_empty
   \<and> fst (add_workspace_user loads_demo (client_demo r200_empty) ''g1'' ''ann@example.org''
            ''User'' ''Member'' None world0) = Inr True"
proof -
  have h: "get_token (credential (auth (client_demo r200_empty))) (scope (auth (client_demo r200_empty)))
             = Inr \<lparr>token = ''tok'', expires_on = 0\<rparr>"
    by (simp add: demo_defs get_token_def)
  have st: "status_code r200_empty = 200" by (simp add: r200_empty_def)
  have jt: "json_tolerated loads_demo r200_empty"
    by (simp add: json_tolerated_def loads_demo_def r200_empty_def)
  have a: "answered (client_demo r200_empty) world0
        (snd (add_workspace_user loads_demo (client_demo r200_empty) ''g1'' ''ann@example.org''
                ''User'' ''Member'' None world0)) r200_empty"
    by (simp add: answered_def demo_defs client_defs domain_defs r200_empty_def)
  from add_workspace_user_email_from_identifier [OF h, where loads = loads_demo and w = world0
         and workspace_id = "''g1''" and ?identifier = "''ann@example.org''"
         and access_right = "''Member''" and r = r200_empty] h st jt a
  show ?thesis by (simp add: BASE_URL_def world0_def)
qed

lemma get_gateway_datasource_users_try_after:
  assumes "get loads c ep None w1 = (res, w2)"
  shows "sent (snd (get_gateway_datasource_users_try loads c ep did w1)) = sent w2"
    and "res = Inl e \<Longrightarrow> get_gateway_datasource_users_try loads c ep did w1 = (Inl e, w2)"
  using assms
  by (auto simp: get_gateway_datasource_users_try_def split: sum.splits)

lemma get_gateway_datasource_users_after:
  assumes "get_gateway_datasource_users_try loads c
             (''gateways/'' @ gid @ ''/datasources/'' @ did @ ''/users'') did
             (logger INFO [Lit ''Fetching users for datasource ID: '', Val did,
                           Lit '' on gateway ID: '', Val gid] w) = (res, w2)"
  shows "sent (snd (get_gateway_datasource_users loads c gid did w)) = sent w2"
    and "\<not> isl (fst (get_gateway_datasource_users loads c gid did w))"
    and "res = Inl e \<Longrightarrow>
         get_gateway_datasource_users loads c gid did w =
           (Inr (JList []),
            log_api_error loads e
              (logger ERROR [Lit ''Could not get users for datasource '', Val did,
                             Lit '' on gateway '', Val gid, Lit '': '', Err e] w2))"
  using assms
  by (auto simp: get_gateway_datasource_users_def Let_def split: sum.splits)

text \<open>
  C7. \<open>get_gateway_datasource_users\<close> never raises. When its \<open>get\<close> raises, it returns the
  empty list after logging the exception and the diagnostics of \<open>log_api_error\<close>; in
  particular, when the session answers with an error status (a 403, say), the log holds
  the status of the response and its body, decoded where the decoder accepts it and raw
  otherwise.
\<close>

theorem datasource_users_degrade:
  "\<not> isl (fst (get_gateway_datasource_users loads c gateway_id datasource_id w))
   \<and> (get loads c (''gateways/'' @ gateway_id @ ''/datasources/'' @ datasource_id @ ''/users'') None
         (logger INFO [Lit ''Fetching users for datasource ID: '', Val datasource_id,
                       Lit '' on gateway ID: '', Val gateway_id] w) = (Inl e, w2) \<longrightarrow>
       get_gateway_datasource_users loads c gateway_id datasource_id w =
         (Inr (JList []),
          log_api_error loads e
            (logger ERROR [Lit ''Could not get users for datasource '', Val datasource_id,
                           Lit '' on gateway '', Val gateway_id, Lit '': '', Err e] w2)))
   \<and> (answered c w (snd (get_gateway_datasource_users loads c gateway_id datasource_id w)) r
       \<and> error_status r \<longrightarrow>
       fst (get_gateway_datasource_users loads c gateway_id datasource_id w) = Inr (JList [])
       \<and> (ERROR, [Lit ''API Response Status: '', Num (status_code r)])
           \<in> set (logged (snd (get_gateway_datasource_users loads c gateway_id datasource_id w)))
       \<and> (ERROR, [Lit ''API Response Body: '',
                   (case loads (content r) of Inr j \<Rightarrow> Obj j | Inl x \<Rightarrow> Val (content r))])
           \<in> set (logged (snd (get_gateway_datasource_users loads c gateway_id datasource_id w))))"
proof -
  let ?ep = "''gateways/'' @ gateway_id @ ''/datasources/'' @ datasource_id @ ''/users''"
  let ?w1 = "logger INFO [Lit ''Fetching users for datasource ID: '', Val datasource_id,
                          Lit '' on gateway ID: '', Val gateway_id] w"
  let ?G = "get_gateway_datasource_users loads c gateway_id datasource_id w"
  obtain rt wt where t: "get_gateway_datasource_users_try loads c ?ep datasource_id ?w1 = (rt, wt)"
    by (cases "get_gateway_datasource_users_try loads c ?ep datasource_id ?w1")
  obtain rg wg where g: "get loads c ?ep None ?w1 = (rg, wg)"
    by (cases "get loads c ?ep None ?w1")
  have raised: "get_gateway_datasource_users loads c gateway_id datasource_id w =
         (Inr (JList []),
          log_api_error loads x
            (logger ERROR [Lit ''Could not get users for datasource '', Val datasource_id,
                           Lit '' on gateway '', Val gateway_id, Lit '': '', Err x] wg))"
    if "rg = Inl x" for x
  proof -
    from get_gateway_datasource_users_try_after(2) [OF g that, of datasource_id] t
    have "rt = Inl x" and "wt = wg" by simp_all
    with get_gateway_datasource_users_after(3) [OF t, of x] show ?thesis by simp
  qed
  have never: "\<not> isl (fst ?G)" by (rule get_gateway_datasource_users_after(2) [OF t])
  have caught: "get loads c ?ep None ?w1 = (Inl e, w2) \<longrightarrow>
       ?G = (Inr (JList []),
          log_api_error loads e
            (logger ERROR [Lit ''Could not get users for datasource '', Val datasource_id,
                           Lit '' on gateway '', Val gateway_id, Lit '': '', Err e] w2))"
  proof (rule impI)
    assume "get loads c ?ep None ?w1 = (Inl e, w2)"
    with g have "rg = Inl e" and "wg = w2" by simp_all
    with raised [of e]
    show "?G = (Inr (JList []),
          log_api_error loads e
            (logger ERROR [Lit ''Could not get users for datasource '', Val datasource_id,
                           Lit '' on gateway '', Val gateway_id, Lit '': '', Err e] w2))"
      by simp
  qed
  have detail: "answered c w (snd ?G) r \<and> error_status r \<longrightarrow>
       fst ?G = Inr (JList [])
       \<and> (ERROR, [Lit ''API Response Status: '', Num (status_code r)]) \<in> set (logged (snd ?G))
       \<and> (ERROR, [Lit ''API Response Body: '',
                   (case loads (content r) of Inr j \<Rightarrow> Obj j | Inl x \<Rightarrow> Val (content r))])
           \<in> set (logged (snd ?G))"
  proof (rule impI)
    assume a: "answered c w (snd ?G) r \<and> error_status r"
    have "sent (snd ?G) = sent wt" by (rule get_gateway_datasource_users_after(1) [OF t])
    moreover have "sent wt = sent wg"
      using get_gateway_datasource_users_try_after(1) [OF g, of datasource_id] t by simp
    ultimately have s: "sent (snd ?G) = sent wg" by simp
    from get_pair_answered [OF g _ s, of w r] a have "rg = Inl (HTTPError (Some r))" by simp
    from raised [OF this]
    have G: "?G = (Inr (JList []),
          log_api_error loads (HTTPError (Some r))
            (logger ERROR [Lit ''Could not get users for datasource '', Val datasource_id,
                           Lit '' on gateway '', Val gateway_id, Lit '': '',
                           Err (HTTPError (Some r))] wg))" .
    have er: "error_response (HTTPError (Some r)) = Some r" by simp
    show "fst ?G = Inr (JList [])
       \<and> (ERROR, [Lit ''API Response Status: '', Num (status_code r)]) \<in> set (logged (snd ?G))
       \<and> (ERROR, [Lit ''API Response Body: '',
                   (case loads (content r) of Inr j \<Rightarrow> Obj j | Inl x \<Rightarrow> Val (content r))])
           \<in> set (logged (snd ?G))"
      by (simp add: G log_api_error_records [OF er])
  qed
  from never caught detail show ?thesis by (intro conjI)
qed

theorem datasource_users_degrade_witness:
  "answered (client_demo r403) world0
      (snd (get_gateway_datasource_users loads_demo (client_demo r403) ''gw1'' ''ds1'' world0)) r403
   \<and> error_status r403
   \<and> get_gateway_datasource_users loads_demo (client_demo r403) ''gw1'' ''ds1'' world0 =
       (Inr (JList []),
        log_api_error loads_demo (HTTPError (Some r403))
          (logger ERROR [Lit ''Could not get users for datasource '', Val ''ds1'',
                         Lit '' on gateway '', Val ''gw1'', Lit '': '', Err (HTTPError (Some r403))]
             (snd (get loads_demo (client_demo r403) ''gateways/gw1/datasources/ds1/users'' None
                     (logger INFO [Lit ''Fetching users for datasource ID: '', Val ''ds1'',
                                   Lit '' on gateway ID: '', Val ''gw1''] world0)))))
   \<and> (ERROR, [Lit ''API Response Status: '', Num 403])
       \<in> set (logged (snd (get_gateway_datasource_users loads_demo (client_demo r403) ''gw1'' ''ds1'' world0)))
   \<and> (ERROR, [Lit ''API Response Body: '', Val ''Forbidden''])
       \<in> set (logged (snd (get_gateway_datasource_users loads_demo (client_demo r403) ''gw1'' ''ds1'' world0)))"
proof -
  let ?w1 = "logger INFO [Lit ''Fetching users for datasource ID: '', Val ''ds1'',
                          Lit '' on gateway ID: '', Val ''gw1''] world0"
  have a: "answered (client_demo r403) world0
      (snd (get_gateway_datasource_users loads_demo (client_demo r403) ''gw1'' ''ds1'' world0)) r403"
    by (simp add: answered_def demo_defs client_defs domain_defs r403_def)
  have es: "error_status r403" by (simp add: error_status_def r403_def)
  have g: "get loads_demo (client_demo r403) (''gateways/'' @ ''gw1'' @ ''/datasources/'' @ ''ds1'' @ ''/users'') None ?w1
           = (Inl (HTTPError (Some r403)),
              snd (get loads_demo (client_demo r403) ''gateways/gw1/datasources/ds1/users'' None ?w1))"
    by (simp add: demo_defs client_defs r403_def)
  have v: "loads_demo (content r403) = Inl (JSONDecodeError ''Expecting value'')"
    "status_code r403 = 403" "content r403 = ''Forbidden''"
    by (simp_all add: loads_demo_def r403_def)
  note T = datasource_users_degrade [where loads = loads_demo and c = "client_demo r403"
         and gateway_id = "''gw1''" and datasource_id = "''ds1''" and w = world0 and r = r403
         and e = "HTTPError (Some r403)"
         and ?w2.0 = "snd (get loads_demo (client_demo r403) ''gateways/gw1/datasources/ds1/users'' None ?w1)"]
  from T g have c2: "get_gateway_datasource_users loads_demo (client_demo r403) ''gw1'' ''ds1'' world0 =
       (Inr (JList []),
        log_api_error loads_demo (HTTPError (Some r403))
          (logger ERROR [Lit ''Could not get users for datasource '', Val ''ds1'',
                         Lit '' on gateway '', Val ''gw1'', Lit '': '', Err (HTTPError (Some r403))]
             (snd (get loads_demo (client_demo r403) ''gateways/gw1/datasources/ds1/users'' None ?w1))))"
    by blast
  from T a es have c3: "(ERROR, [Lit ''API Response Status: '', Num (status_code r403)])
       \<in> set (logged (snd (get_gateway_datasource_users loads_demo (client_demo r403) ''gw1'' ''ds1'' world0)))"
    and c4: "(ERROR, [Lit ''API Response Body: '',
                   (case loads_demo (content r403) of Inr j \<Rightarrow> Obj j | Inl x \<Rightarrow> Val (content r403))])
       \<in> set (logged (snd (get_gateway_datasource_users loads_demo (client_demo r403) ''gw1'' ''ds1'' world0)))"
    by blast+
  from c3 v have c3': "(ERROR, [Lit ''API Response Status: '', Num 403])
       \<in> set (logged (snd (get_gateway_datasource_users loads_demo (client_demo r403) ''gw1'' ''ds1'' world0)))"
    by simp
  from c4 v have c4': "(ERROR, [Lit ''API Response Body: '', Val ''Forbidden''])
       \<in> set (logged (snd (get_gateway_datasource_users loads_demo (client_demo r403) ''gw1'' ''ds1'' world0)))"
    by simp
  from a es c2 c3' c4' show ?thesis by (intro conjI)
qed



lemma sent_add_datasource_user_payload [simp]:
  "sent (snd (add_datasource_user_payload pid pt ar dn em prof w)) = sent w"
  by (simp add: add_datasource_user_payload_def Let_def split: option.splits)

lemma sent_add_workspace_user_payload [simp]:
  "sent (snd (add_workspace_user_payload ident pt ar em w)) = sent w"
  by (simp add: add_workspace_user_payload_def Let_def split: option.splits)

text \<open>
  The shape shared by the three mutating operations: the outcome \<open>res\<close> of the client
  call becomes a boolean, with a log record on either side.
\<close>

lemma bool_of_outcome:
  assumes "(case res of
              Inr j \<Rightarrow> (Inr True, logger INFO ok_msg w3)
            | Inl e \<Rightarrow> (Inr False, log_api_error loads e (logger ERROR (err_msg e) w3))) = result"
  shows "\<not> isl (fst result)"
    and "res = Inl e \<Longrightarrow> result = (Inr False, log_api_error loads e (logger ERROR (err_msg e) w3))"
    and "\<not> isl res \<Longrightarrow> result = (Inr True, logger INFO ok_msg w3)"
    and "fst result = Inr (\<not> isl res)"
    and "sent (snd result) = sent w3"
  using assms by (cases res; auto)+

lemma add_datasource_user_bool:
  "(let w1 = logger INFO [Lit ''Adding '', Val pt, Lit '' (ID: '', Val pid,
                          Lit '') to datasource '', Val did, Lit '' on gateway '',
                          Val gid, Lit '' with rights: '', Val ar] w;
        pl = add_datasource_user_payload pid pt ar dn em prof w1;
        call = post loads c (''gateways/'' @ gid @ ''/datasources/'' @ did @ ''/users'')
                 (Some (JDict (fst pl))) (snd pl);
        result = add_datasource_user loads c gid did pid pt ar dn em prof w
    in \<not> isl (fst result)
       \<and> (fst call = Inl e \<longrightarrow>
            result = (Inr False,
                      log_api_error loads e
                        (logger ERROR [Lit ''Failed to add user '', Val pid,
                                       Lit '' to datasource '', Val did, Lit '' on gateway '',
                                       Val gid, Lit '': '', Err e] (snd call))))
       \<and> (\<not> isl (fst call) \<longrightarrow>
            result = (Inr True,
                      logger INFO [Lit ''Successfully added '', Val pt, Lit '' '', Val pid,
                                   Lit '' to datasource '', Val did, Lit ''.''] (snd call)))
       \<and> fst result = Inr (post_returned loads c w (snd result)))"
proof -
  let ?w1 = "logger INFO [Lit ''Adding '', Val pt, Lit '' (ID: '', Val pid,
                          Lit '') to datasource '', Val did, Lit '' on gateway '',
                          Val gid, Lit '' with rights: '', Val ar] w"
  let ?ep = "''gateways/'' @ gid @ ''/datasources/'' @ did @ ''/users''"
  let ?result = "add_datasource_user loads c gid did pid pt ar dn em prof w"
  obtain payload w2 where pl: "add_datasource_user_payload pid pt ar dn em prof ?w1 = (payload, w2)"
    by (cases "add_datasource_user_payload pid pt ar dn em prof ?w1")
  have s2: "sent w2 = sent w"
    using sent_add_datasource_user_payload [of pid pt ar dn em prof ?w1] by (simp add: pl)
  obtain res w3 where p: "post loads c ?ep (Some (JDict payload)) w2 = (res, w3)"
    by (cases "post loads c ?ep (Some (JDict payload)) w2")
  from pl p have shape: "(case res of
            Inr j \<Rightarrow> (Inr True, logger INFO [Lit ''Successfully added '', Val pt, Lit '' '',
                                Val pid, Lit '' to datasource '', Val did, Lit ''.''] w3)
          | Inl e \<Rightarrow> (Inr False, log_api_error loads e
                     (logger ERROR ((\<lambda>e. [Lit ''Failed to add user '', Val pid,
                                    Lit '' to datasource '', Val did, Lit '' on gateway '',
                                    Val gid, Lit '': '', Err e]) e) w3))) = ?result"
    by (simp add: add_datasource_user_def Let_def)
  from post_returned_iff [of loads c ?ep "Some (JDict payload)" w2] p
  have "isl res \<longleftrightarrow> \<not> post_returned loads c w2 w3" by simp
  moreover have "post_returned loads c w2 w3 = post_returned loads c w (snd ?result)"
    using s2 bool_of_outcome(5) [OF shape] by (intro post_returned_cong) simp_all
  ultimately have e: "fst ?result = Inr (post_returned loads c w (snd ?result))"
    using bool_of_outcome(4) [OF shape] by simp
  from bool_of_outcome(1) [OF shape] bool_of_outcome(2) [OF shape, of e]
       bool_of_outcome(3) [OF shape] e pl p
  show ?thesis by (simp add: Let_def)
qed

lemma add_workspace_user_bool:
  "(let w1 = logger INFO [Lit ''Adding '', Val pt, Lit '' ('', Val ident,
                          Lit '') to workspace '', Val wid, Lit '' with rights: '', Val ar] w;
        pl = add_workspace_user_payload ident pt ar em w1;
        call = post loads c (''groups/'' @ wid @ ''/users'') (Some (JDict (fst pl))) (snd pl);
        result = add_workspace_user loads c wid ident pt ar em w
    in \<not> isl (fst result)
       \<and> (fst call = Inl e \<longrightarrow>
            result = (Inr False,
                      log_api_error loads e
                        (logger ERROR [Lit ''Failed to add '', Val pt, Lit '' '', Val ident,
                                       Lit '' to workspace '', Val wid, Lit '': '', Err e]
                           (snd call))))
       \<and> (\<not> isl (fst call) \<longrightarrow>
            result = (Inr True,
                      logger INFO [Lit ''Successfully added '', Val pt, Lit '' '', Val ident,
                                   Lit '' to workspace '', Val wid, Lit ''.''] (snd call)))
       \<and> fst result = Inr (post_returned loads c w (snd result)))"
proof -
  let ?w1 = "logger INFO [Lit ''Adding '', Val pt, Lit '' ('', Val ident,
                          Lit '') to workspace '', Val wid, Lit '' with rights: '', Val ar] w"
  let ?ep = "''groups/'' @ wid @ ''/users''"
  let ?result = "add_workspace_user loads c wid ident pt ar em w"
  obtain payload w2 where pl: "add_workspace_user_payload ident pt ar em ?w1 = (payload, w2)"
    by (cases "add_workspace_user_payload ident pt ar em ?w1")
  have s2: "sent w2 = sent w"
    using sent_add_workspace_user_payload [of ident pt ar em ?w1] by (simp add: pl)
  obtain res w3 where p: "post loads c ?ep (Some (JDict payload)) w2 = (res, w3)"
    by (cases "post loads c ?ep (Some (JDict payload)) w2")
  from pl p have shape: "(case res of
            Inr j \<Rightarrow> (Inr True, logger INFO [Lit ''Successfully added '', Val pt, Lit '' '',
                                Val ident, Lit '' to workspace '', Val wid, Lit ''.''] w3)
          | Inl e \<Rightarrow> (Inr False, log_api_error loads e
                     (logger ERROR ((\<lambda>e. [Lit ''Failed to add '', Val pt, Lit '' '',
                                    Val ident, Lit '' to workspace '', Val wid,
                                    Lit '': '', Err e]) e) w3))) = ?result"
    by (simp add: add_workspace_user_def Let_def)
  from post_returned_iff [of loads c ?ep "Some (JDict payload)" w2] p
  have "isl res \<longleftrightarrow> \<not> post_returned loads c w2 w3" by simp
  moreover have "post_returned loads c w2 w3 = post_returned loads c w (snd ?result)"
    using s2 bool_of_outcome(5) [OF shape] by (intro post_returned_cong) simp_all
  ultimately have e: "fst ?result = Inr (post_returned loads c w (snd ?result))"
    using bool_of_outcome(4) [OF shape] by simp
  from bool_of_outcome(1) [OF shape] bool_of_outcome(2) [OF shape, of e]
       bool_of_outcome(3) [OF shape] e pl p
  show ?thesis by (simp add: Let_def)
qed

lemma delete_workspace_user_bool:
  "(let principal_info =
          (case pt of
             Some t \<Rightarrow> if t \<noteq> [] then [Val t, Lit '' ('', Val ident, Lit '')'']
                       else [Val ident]
           | None \<Rightarrow> [Val ident]);
        w1 = logger INFO ([Lit ''Deleting ''] @ principal_info @
                          [Lit '' from workspace '', Val wid]) w;
        call = request c ''DELETE'' (''groups/'' @ wid @ ''/users/'' @ ident) [] w1;
        result = delete_workspace_user loads c wid ident pt w
    in \<not> isl (fst result)
       \<and> (fst call = Inl e \<longrightarrow>
            result = (Inr False,
                      log_api_error loads e
                        (logger ERROR ([Lit ''Failed to delete ''] @ principal_info @
                                       [Lit '' from workspace '', Val wid, Lit '': '', Err e])
                           (snd call))))
       \<and> (\<not> isl (fst call) \<longrightarrow>
            result = (Inr True,
                      logger INFO ([Lit ''Successfully deleted ''] @ principal_info @
                                   [Lit '' from workspace '', Val wid, Lit ''.'']) (snd call)))
       \<and> fst result = Inr (succeeded c w (snd result)))"
proof -
  let ?info = "(case pt of
                 Some t \<Rightarrow> if t \<noteq> [] then [Val t, Lit '' ('', Val ident, Lit '')'']
                           else [Val ident]
               | None \<Rightarrow> [Val ident])"
  let ?w1 = "logger INFO ([Lit ''Deleting ''] @ ?info @ [Lit '' from workspace '', Val wid]) w"
  let ?ep = "''groups/'' @ wid @ ''/users/'' @ ident"
  let ?result = "delete_workspace_user loads c wid ident pt w"
  have s1: "sent ?w1 = sent w" by simp
  obtain res w2 where p: "request c ''DELETE'' ?ep [] ?w1 = (res, w2)"
    by (cases "request c ''DELETE'' ?ep [] ?w1")
  from p have shape: "(case res of
            Inr j \<Rightarrow> (Inr True, logger INFO ([Lit ''Successfully deleted ''] @ ?info @
                           [Lit '' from workspace '', Val wid, Lit ''.'']) w2)
          | Inl e \<Rightarrow> (Inr False, log_api_error loads e
                     (logger ERROR ((\<lambda>e. [Lit ''Failed to delete ''] @ ?info @
                               [Lit '' from workspace '', Val wid, Lit '': '', Err e]) e) w2))) = ?result"
    by (simp add: delete_workspace_user_def Let_def)
  from request_succeeded [of c "''DELETE''" ?ep "[]" ?w1] p
  have "isl res \<longleftrightarrow> \<not> succeeded c ?w1 w2" by simp
  moreover have "succeeded c ?w1 w2 = succeeded c w (snd ?result)"
    using s1 bool_of_outcome(5) [OF shape] by (intro succeeded_cong) simp_all
  ultimately have e: "fst ?result = Inr (succeeded c w (snd ?result))"
    using bool_of_outcome(4) [OF shape] by simp
  from bool_of_outcome(1) [OF shape] bool_of_outcome(2) [OF shape, of e]
       bool_of_outcome(3) [OF shape] e p
  show ?thesis by (simp add: Let_def)
qed


text \<open>
  C8. \<open>add_datasource_user\<close>, \<open>add_workspace_user\<close> and \<open>delete_workspace_user\<close> never
  raise. Whatever exception the client call inside the \<open>try\<close> raises (\<open>post\<close> for the two
  additions, \<open>_request\<close> for the deletion), the operation returns \<open>False\<close> after logging
  the exception and the diagnostics of \<open>log_api_error\<close>; when the call returns, the
  operation returns \<open>True\<close> after logging the success. In terms of the exchange: an
  addition returns \<open>True\<close> exactly when its request was handed to the session and \<open>post\<close>
  returned on the answer, the deletion exactly when its request succeeded.
\<close>

theorem mutating_operations_report_bool:
  "(let w1 = logger INFO [Lit ''Adding '', Val principal_type, Lit '' (ID: '', Val principal_id,
                          Lit '') to datasource '', Val datasource_id, Lit '' on gateway '',
                          Val gateway_id, Lit '' with rights: '', Val access_right] w;
        pl = add_datasource_user_payload principal_id principal_type access_right display_name
               email_address profile w1;
        call = post loads c (''gateways/'' @ gateway_id @ ''/datasources/'' @ datasource_id @ ''/users'')
                 (Some (JDict (fst pl))) (snd pl);
        result = add_datasource_user loads c gateway_id datasource_id principal_id principal_type
                   access_right display_name email_address profile w
    in \<not> isl (fst result)
       \<and> (fst call = Inl e \<longrightarrow>
            result = (Inr False,
                      log_api_error loads e
                        (logger ERROR [Lit ''Failed to add user '', Val principal_id,
                                       Lit '' to datasource '', Val datasource_id,
                                       Lit '' on gateway '', Val gateway_id, Lit '': '', Err e]
                           (snd call))))
       \<and> (\<not> isl (fst call) \<longrightarrow>
            result = (Inr True,
                      logger INFO [Lit ''Successfully added '', Val principal_type, Lit '' '',
                                   Val principal_id, Lit '' to datasource '', Val datasource_id,
                                   Lit ''.''] (snd call)))
       \<and> fst result = Inr (post_returned loads c w (snd result)))
   \<and> (let w1 = logger INFO [Lit ''Adding '', Val principal_type, Lit '' ('', Val identifier,
                            Lit '') to workspace '', Val workspace_id, Lit '' with rights: '',
                            Val access_right] w;
          pl = add_workspace_user_payload identifier principal_type access_right email_address w1;
          call = post loads c (''groups/'' @ workspace_id @ ''/users'') (Some (JDict (fst pl))) (snd pl);
          result = add_workspace_user loads c workspace_id identifier principal_type access_right
                     email_address w
      in \<not> isl (fst result)
         \<and> (fst call = Inl e \<longrightarrow>
              result = (Inr False,
                        log_api_error loads e
                          (logger ERROR [Lit ''Failed to add '', Val principal_type, Lit '' '',
                                         Val identifier, Lit '' to workspace '', Val workspace_id,
                                         Lit '': '', Err e] (snd call))))
         \<and> (\<not> isl (fst call) \<longrightarrow>
              result = (Inr True,
                        logger INFO [Lit ''Successfully added '', Val principal_type, Lit '' '',
                                     Val identifier, Lit '' to workspace '', Val workspace_id,
                                     Lit ''.''] (snd call)))
         \<and> fst result = Inr (post_returned loads c w (snd result)))
   \<and> (let principal_info =
            (case principal_hint of
               Some t \<Rightarrow> if t \<noteq> [] then [Val t, Lit '' ('', Val identifier, Lit '')'']
                         else [Val identifier]
             | None \<Rightarrow> [Val identifier]);
          w1 = logger INFO ([Lit ''Deleting ''] @ principal_info @
                            [Lit '' from workspace '', Val workspace_id]) w;
          call = request c ''DELETE'' (''groups/'' @ workspace_id @ ''/users/'' @ identifier) [] w1;
          result = delete_workspace_user loads c workspace_id identifier principal_hint w
      in \<not> isl (fst result)
         \<and> (fst call = Inl e \<longrightarrow>
              result = (Inr False,
                        log_api_error loads e
                          (logger ERROR ([Lit ''Failed to delete ''] @ principal_info @
                                         [Lit '' from workspace '', Val workspace_id, Lit '': '',
                                          Err e]) (snd call))))
         \<and> (\<not> isl (fst call) \<longrightarrow>
              result = (Inr True,
                        logger INFO ([Lit ''Successfully deleted ''] @ principal_info @
                                     [Lit '' from workspace '', Val workspace_id, Lit ''.''])
                          (snd call)))
         \<and> fst result = Inr (succeeded c w (snd result)))"
  by (intro conjI add_datasource_user_bool add_workspace_user_bool delete_workspace_user_bool)


theorem mutating_operations_report_bool_witness:
  "fst (let w1 = logger INFO [Lit ''Adding '', Val ''Group'', Lit '' (ID: '', Val ''p1'',
                          Lit '') to datasource '', Val ''ds1'', Lit '' on gateway '',
                          Val ''gw1'', Lit '' with rights: '', Val ''Read''] world0;
        pl = add_datasource_user_payload ''p1'' ''Group'' ''Read'' None None None w1
    in post loads_demo (client_demo r403) (''gateways/'' @ ''gw1'' @ ''/datasources/'' @ ''ds1'' @ ''/users'')
         (Some (JDict (fst pl))) (snd pl)) = Inl (HTTPError (Some r403))
   \<and> fst (add_datasource_user loads_demo (client_demo r403) ''gw1'' ''ds1'' ''p1'' ''Group'' ''Read'' None None None world0) = Inr False
   \<and> \<not> isl (fst (let w1 = logger INFO [Lit ''Adding '', Val ''Group'', Lit '' (ID: '', Val ''p1'',
                          Lit '') to datasource '', Val ''ds1'', Lit '' on gateway '',
                          Val ''gw1'', Lit '' with rights: '', Val ''Read''] world0;
        pl = add_datasource_user_payload ''p1'' ''Group'' ''Read'' None None None w1
    in post loads_demo (client_demo r200_empty) (''gateways/'' @ ''gw1'' @ ''/datasources/'' @ ''ds1'' @ ''/users'')
         (Some (JDict (fst pl))) (snd pl)))
   \<and> fst (add_datasource_user loads_demo (client_demo r200_empty) ''gw1'' ''ds1'' ''p1'' ''Group'' ''Read'' None None None world0) = Inr True
   \<and> fst (let w1 = logger INFO [Lit ''Adding '', Val ''Group'', Lit '' (ID: '', Val ''p1'',
                          Lit '') to datasource '', Val ''ds1'', Lit '' on gateway '',
                          Val ''gw1'', Lit '' with rights: '', Val ''Read''] world0;
        pl = add_datasource_user_payload ''p1'' ''Group'' ''Read'' None None None w1
    in post loads_demo (client_demo r200_deep) (''gateways/'' @ ''gw1'' @ ''/datasources/'' @ ''ds1'' @ ''/users'')
         (Some (JDict (fst pl))) (snd pl)) = Inl (RecursionError ''maximum recursion depth exceeded while decoding a JSON array from a unicode string'')
   \<and> fst (add_datasource_user loads_demo (client_demo r200_deep) ''gw1'' ''ds1'' ''p1'' ''Group'' ''Read'' None None None world0) = Inr False
   \<and> fst (let w1 = logger INFO [Lit ''Adding '', Val ''Group'', Lit '' ('', Val ''u1'',
                          Lit '') to workspace '', Val ''g1'', Lit '' with rights: '',
                          Val ''Viewer''] world0;
        pl = add_workspace_user_payload ''u1'' ''Group'' ''Viewer'' None w1
    in post loads_demo (client_demo r403) (''groups/'' @ ''g1'' @ ''/users'') (Some (JDict (fst pl))) (snd pl)) = Inl (HTTPError (Some r403))
   \<and> fst (add_workspace_user loads_demo (client_demo r403) ''g1'' ''u1'' ''Group'' ''Viewer'' None world0) = Inr False
   \<and> \<not> isl (fst (let w1 = logger INFO [Lit ''Adding '', Val ''Group'', Lit '' ('', Val ''u1'',
                          Lit '') to workspace '', Val ''g1'', Lit '' with rights: '',
                          Val ''Viewer''] world0;
        pl = add_workspace_user_payload ''u1'' ''Group'' ''Viewer'' None w1
    in post loads_demo (client_demo r200_empty) (''groups/'' @ ''g1'' @ ''/users'') (Some (JDict (fst pl))) (snd pl)))
   \<and> fst (add_workspace_user loads_demo (client_demo r200_empty) ''g1'' ''u1'' ''Group'' ''Viewer'' None world0) = Inr True
   \<and> fst (let w1 = logger INFO [Lit ''Adding '', Val ''Group'', Lit '' ('', Val ''u1'',
                          Lit '') to workspace '', Val ''g1'', Lit '' with rights: '',
                          Val ''Viewer''] world0;
        pl = add_workspace_user_payload ''u1'' ''Group'' ''Viewer'' None w1
    in post loads_demo (client_demo r200_deep) (''groups/'' @ ''g1'' @ ''/users'') (Some (JDict (fst pl))) (snd pl)) = Inl (RecursionError ''maximum recursion depth exceeded while decoding a JSON array from a unicode string'')
   \<and> fst (add_workspace_user loads_demo (client_demo r200_deep) ''g1'' ''u1'' ''Group'' ''Viewer'' None world0) = Inr False
   \<and> fst (request (client_demo r403) ''DELETE'' (''groups/'' @ ''g1'' @ ''/users/'' @ ''u1'') []
       (logger INFO ([Lit ''Deleting ''] @ [Val ''u1''] @ [Lit '' from workspace '', Val ''g1'']) world0)) = Inl (HTTPError (Some r403))
   \<and> fst (delete_workspace_user loads_demo (client_demo r403) ''g1'' ''u1'' None world0) = Inr False
   \<and> \<not> isl (fst (request (client_demo r200_empty) ''DELETE'' (''groups/'' @ ''g1'' @ ''/users/'' @ ''u1'') []
       (logger INFO ([Lit ''Deleting ''] @ [Val ''u1''] @ [Lit '' from workspace '', Val ''g1'']) world0)))
   \<and> fst (delete_workspace_user loads_demo (client_demo r200_empty) ''g1'' ''u1'' None world0) = Inr True
   \<and> \<not> isl (fst (request (client_demo r200_deep) ''DELETE'' (''groups/'' @ ''g1'' @ ''/users/'' @ ''u1'') []
       (logger INFO ([Lit ''Deleting ''] @ [Val ''u1''] @ [Lit '' from workspace '', Val ''g1'']) world0)))
   \<and> fst (delete_workspace_user loads_demo (client_demo r200_deep) ''g1'' ''u1'' None world0) = Inr True"
proof -
  note T_r403 = mutating_operations_report_bool [where loads = loads_demo
      and c = "client_demo r403" and w = world0
      and e = "HTTPError (Some r403)"
      and gateway_id = "''gw1''" and datasource_id = "''ds1''" and principal_id = "''p1''"
      and principal_type = "''Group''" and access_right = "''Read''" and display_name = None
      and email_address = None and profile = None]
  note U_r403 = mutating_operations_report_bool [where loads = loads_demo
      and c = "client_demo r403" and w = world0
      and e = "HTTPError (Some r403)"
      and workspace_id = "''g1''" and ?identifier = "''u1''" and principal_type = "''Group''"
      and access_right = "''Viewer''" and email_address = None and principal_hint = None]
  note T_r200_empty = mutating_operations_report_bool [where loads = loads_demo
      and c = "client_demo r200_empty" and w = world0
      and gateway_id = "''gw1''" and datasource_id = "''ds1''" and principal_id = "''p1''"
      and principal_type = "''Group''" and access_right = "''Read''" and display_name = None
      and email_address = None and profile = None]
  note U_r200_empty = mutating_operations_report_bool [where loads = loads_demo
      and c = "client_demo r200_empty" and w = world0
      and workspace_id = "''g1''" and ?identifier = "''u1''" and principal_type = "''Group''"
      and access_right = "''Viewer''" and email_address = None and principal_hint = None]
  note T_r200_deep = mutating_operations_report_bool [where loads = loads_demo
      and c = "client_demo r200_deep" and w = world0
      and e = "RecursionError ''maximum recursion depth exceeded while decoding a JSON array from a unicode string''"
      and gateway_id = "''gw1''" and datasource_id = "''ds1''" and principal_id = "''p1''"
      and principal_type = "''Group''" and access_right = "''Read''" and display_name = None
      and email_address = None and profile = None]
  note U_r200_deep = mutating_operations_report_bool [where loads = loads_demo
      and c = "client_demo r200_deep" and w = world0
      and e = "RecursionError ''maximum recursion depth exceeded while decoding a JSON array from a unicode string''"
      and workspace_id = "''g1''" and ?identifier = "''u1''" and principal_type = "''Group''"
      and access_right = "''Viewer''" and email_address = None and principal_hint = None]
  have h_ds403: "fst (let w1 = logger INFO [Lit ''Adding '', Val ''Group'', Lit '' (ID: '', Val ''p1'',
                          Lit '') to datasource '', Val ''ds1'', Lit '' on gateway '',
                          Val ''gw1'', Lit '' with rights: '', Val ''Read''] world0;
        pl = add_datasource_user_payload ''p1'' ''Group'' ''Read'' None None None w1
    in post loads_demo (client_demo r403) (''gateways/'' @ ''gw1'' @ ''/datasources/'' @ ''ds1'' @ ''/users'')
         (Some (JDict (fst pl))) (snd pl)) = Inl (HTTPError (Some r403))"
    by (simp add: Let_def demo_defs client_defs domain_defs r403_def)
  from T_r403 h_ds403 have c_ds403: "fst (add_datasource_user loads_demo (client_demo r403) ''gw1'' ''ds1'' ''p1'' ''Group'' ''Read'' None None None world0) = Inr False"
    by (simp add: Let_def)
  have h_ds200: "\<not> isl (fst (let w1 = logger INFO [Lit ''Adding '', Val ''Group'', Lit '' (ID: '', Val ''p1'',
                          Lit '') to datasource '', Val ''ds1'', Lit '' on gateway '',
                          Val ''gw1'', Lit '' with rights: '', Val ''Read''] world0;
        pl = add_datasource_user_payload ''p1'' ''Group'' ''Read'' None None None w1
    in post loads_demo (client_demo r200_empty) (''gateways/'' @ ''gw1'' @ ''/datasources/'' @ ''ds1'' @ ''/users'')
         (Some (JDict (fst pl))) (snd pl)))"
    by (simp add: Let_def demo_defs client_defs domain_defs r200_empty_def)
  from T_r200_empty h_ds200 have c_ds200: "fst (add_datasource_user loads_demo (client_demo r200_empty) ''gw1'' ''ds1'' ''p1'' ''Group'' ''Read'' None None None world0) = Inr True"
    by (simp add: Let_def)
  have h_dsdeep: "fst (let w1 = logger INFO [Lit ''Adding '', Val ''Group'', Lit '' (ID: '', Val ''p1'',
                          Lit '') to datasource '', Val ''ds1'', Lit '' on gateway '',
                          Val ''gw1'', Lit '' with rights: '', Val ''Read''] world0;
        pl = add_datasource_user_payload ''p1'' ''Group'' ''Read'' None None None w1
    in post loads_demo (client_demo r200_deep) (''gateways/'' @ ''gw1'' @ ''/datasources/'' @ ''ds1'' @ ''/users'')
         (Some (JDict (fst pl))) (snd pl)) = Inl (RecursionError ''maximum recursion depth exceeded while decoding a JSON array from a unicode string'')"
    by (simp add: Let_def demo_defs client_defs domain_defs r200_deep_def)
  from T_r200_deep h_dsdeep have c_dsdeep: "fst (add_datasource_user loads_demo (client_demo r200_deep) ''gw1'' ''ds1'' ''p1'' ''Group'' ''Read'' None None None world0) = Inr False"
    by (simp add: Let_def)
  have h_ws403: "fst (let w1 = logger INFO [Lit ''Adding '', Val ''Group'', Lit '' ('', Val ''u1'',
                          Lit '') to workspace '', Val ''g1'', Lit '' with rights: '',
                          Val ''Viewer''] world0;
        pl = add_workspace_user_payload ''u1'' ''Group'' ''Viewer'' None w1
    in post loads_demo (client_demo r403) (''groups/'' @ ''g1'' @ ''/users'') (Some (JDict (fst pl))) (snd pl)) = Inl (HTTPError (Some r403))"
    by (simp add: Let_def demo_defs client_defs domain_defs r403_def)
  from U_r403 h_ws403 have c_ws403: "fst (add_workspace_user loads_demo (client_demo r403) ''g1'' ''u1'' ''Group'' ''Viewer'' None world0) = Inr False"
    by (simp add: Let_def)
  have h_ws200: "\<not> isl (fst (let w1 = logger INFO [Lit ''Adding '', Val ''Group'', Lit '' ('', Val ''u1'',
                          Lit '') to workspace '', Val ''g1'', Lit '' with rights: '',
                          Val ''Viewer''] world0;
        pl = add_workspace_user_payload ''u1'' ''Group'' ''Viewer'' None w1
    in post loads_demo (client_demo r200_empty) (''groups/'' @ ''g1'' @ ''/users'') (Some (JDict (fst pl))) (snd pl)))"
    by (simp add: Let_def demo_defs client_defs domain_defs r200_empty_def)
  from U_r200_empty h_ws200 have c_ws200: "fst (add_workspace_user loads_demo (client_demo r200_empty) ''g1'' ''u1'' ''Group'' ''Viewer'' None world0) = Inr True"
    by (simp add: Let_def)
  have h_wsdeep: "fst (let w1 = logger INFO [Lit ''Adding '', Val ''Group'', Lit '' ('', Val ''u1'',
                          Lit '') to workspace '', Val ''g1'', Lit '' with rights: '',
                          Val ''Viewer''] world0;
        pl = add_workspace_user_payload ''u1'' ''Group'' ''Viewer'' None w1
    in post loads_demo (client_demo r200_deep) (''groups/'' @ ''g1'' @ ''/users'') (Some (JDict (fst pl))) (snd pl)) = Inl (RecursionError ''maximum recursion depth exceeded while decoding a JSON array from a unicode string'')"
    by (simp add: Let_def demo_defs client_defs domain_defs r200_deep_def)
  from U_r200_deep h_wsdeep have c_wsdeep: "fst (add_workspace_user loads_demo (client_demo r200_deep) ''g1'' ''u1'' ''Group'' ''Viewer'' None world0) = Inr False"
    by (simp add: Let_def)
  have h_del403: "fst (request (client_demo r403) ''DELETE'' (''groups/'' @ ''g1'' @ ''/users/'' @ ''u1'') []
       (logger INFO ([Lit ''Deleting ''] @ [Val ''u1''] @ [Lit '' from workspace '', Val ''g1'']) world0)) = Inl (HTTPError (Some r403))"
    by (simp add: Let_def demo_defs client_defs domain_defs r403_def)
  from U_r403 h_del403 have c_del403: "fst (delete_workspace_user loads_demo (client_demo r403) ''g1'' ''u1'' None world0) = Inr False"
    by (simp add: Let_def)
  have h_del200: "\<not> isl (fst (request (client_demo r200_empty) ''DELETE'' (''groups/'' @ ''g1'' @ ''/users/'' @ ''u1'') []
       (logger INFO ([Lit ''Deleting ''] @ [Val ''u1''] @ [Lit '' from workspace '', Val ''g1'']) world0)))"
    by (simp add: Let_def demo_defs client_defs domain_defs r200_empty_def)
  from U_r200_empty h_del200 have c_del200: "fst (delete_workspace_user loads_demo (client_demo r200_empty) ''g1'' ''u1'' None world0) = Inr True"
    by (simp add: Let_def)
  have h_deldeep: "\<not> isl (fst (request (client_demo r200_deep) ''DELETE'' (''groups/'' @ ''g1'' @ ''/users/'' @ ''u1'') []
       (logger INFO ([Lit ''Deleting ''] @ [Val ''u1''] @ [Lit '' from workspace '', Val ''g1'']) world0)))"
    by (simp add: Let_def demo_defs client_defs domain_defs r200_deep_def)
  from U_r200_deep h_deldeep have c_deldeep: "fst (delete_workspace_user loads_demo (client_demo r200_deep) ''g1'' ''u1'' None world0) = Inr True"
    by (simp add: Let_def)
  from h_ds403 c_ds403 h_ds200 c_ds200 h_dsdeep c_dsdeep h_ws403 c_ws403 h_ws200 c_ws200 h_wsdeep c_wsdeep h_del403 c_del403 h_del200 c_del200 h_deldeep c_deldeep
  show ?thesis by (intro conjI)
qed

end
